theory Spec2Isabelle
  imports Main
begin

section \<open>Values exchanged with the collaborators\<close>

text \<open>
  The chain client hands hashes and other byte fields over either as a Python \<open>str\<close>
  or as a \<open>HexBytes\<close> buffer; the code tests \<open>type(x) is HexBytes\<close> and calls
  \<open>x.hex()\<close>. Bytes are natural numbers below 256.
\<close>

datatype hexval = Str string | HexBytes "nat list"

text \<open>Exceptions of the program, as values.\<close>

datatype error =
    AssertionError
  | IndexError
  | KeyError
  | UnboundLocalError
  | ConstraintError
  | RpcError
  | ProcessExit
  | ValueError

text \<open>Values that travel as query parameters and are stored as properties.\<close>

datatype pval = PNull | PStr string | PInt int | PBool bool | PBytes "nat list"

definition hex_digit :: "nat \<Rightarrow> char" where
  "hex_digit d = ''0123456789abcdef'' ! (d mod 16)"

text \<open>\<open>HexBytes.hex()\<close>: the prefix \<open>0x\<close> and two lower-case digits per byte.\<close>

definition hex :: "nat list \<Rightarrow> string" where
  "hex bs = ''0x'' @ concat (map (\<lambda>b. [hex_digit (b div 16), hex_digit b]) bs)"

text \<open>The idiom \<open>x if type(x) is not HexBytes else x.hex()\<close>.\<close>

definition unhex :: "hexval \<Rightarrow> string" where
  "unhex v = (case v of Str s \<Rightarrow> s | HexBytes bs \<Rightarrow> hex bs)"

text \<open>A \<open>str\<close>-or-\<open>HexBytes\<close> value passed to the driver unchanged.\<close>

definition param :: "hexval \<Rightarrow> pval" where
  "param v = (case v of Str s \<Rightarrow> PStr s | HexBytes bs \<Rightarrow> PBytes bs)"

text \<open>Python's \<open>str\<close> on an integer.\<close>

fun str_nat :: "nat \<Rightarrow> string" where
  "str_nat n = (if n < 10 then [hex_digit n] else str_nat (n div 10) @ [hex_digit (n mod 10)])"

declare str_nat.simps [simp del]

definition str_int :: "int \<Rightarrow> string" where
  "str_int i = (if i < 0 then CHR ''-'' # str_nat (nat (- i)) else str_nat (nat i))"

section \<open>The property graph and the queries the program sends\<close>

datatype label = Block | Transaction | TokenTransfer | Address | EOA | Contract

datatype rel =
    BLOCK_REWARD | UNCLE_REWARD | CONTAINS | SEND | TO | CALL_CONTRACT_CREATION
  | SEND_TOKEN | TOKEN_TO | CALL_TOKEN_TRANSFER

record node =
  nid :: nat
  labels :: "label set"
  props :: "(string \<times> pval) list"

record edge =
  src :: nat
  kind :: rel
  dst :: nat
  eprops :: "(string \<times> pval) list"

record graph =
  nodes :: "node list"
  edges :: "edge list"

definition empty_graph :: graph where
  "empty_graph = \<lparr>nodes = [], edges = []\<rparr>"

text \<open>A property set to null is not stored.\<close>

definition stored :: "(string \<times> pval) list \<Rightarrow> (string \<times> pval) list" where
  "stored ps = filter (\<lambda>kv. snd kv \<noteq> PNull) ps"

text \<open>
  A pattern \<open>(n:L1:L2 {k1: v1, k2: v2})\<close>: every label is on the node and every
  property equals the parameter; a null parameter equals nothing.
\<close>

definition has_prop :: "node \<Rightarrow> string \<times> pval \<Rightarrow> bool" where
  "has_prop n kv = (snd kv \<noteq> PNull \<and> map_of (props n) (fst kv) = Some (snd kv))"

definition matches :: "label list \<Rightarrow> (string \<times> pval) list \<Rightarrow> node \<Rightarrow> bool" where
  "matches ls ps n = (list_all (\<lambda>l. l \<in> labels n) ls \<and> list_all (has_prop n) ps)"

definition match_nodes :: "graph \<Rightarrow> label list \<Rightarrow> (string \<times> pval) list \<Rightarrow> node list" where
  "match_nodes g ls ps = filter (matches ls ps) (nodes g)"

definition fresh_id :: "graph \<Rightarrow> nat" where
  "fresh_id g = Suc (fold max (map nid (nodes g)) 0)"

text \<open>
  The constraints that \<open>create_db\<close> provisions: \<open>Block.hash\<close>, \<open>Block.number\<close>,
  \<open>Address.address\<close> and \<open>Transaction.hash\<close> are unique, and
  \<open>(transaction_hash, log_index)\<close> is a node key of \<open>TokenTransfer\<close> (both properties
  exist and the pair is unique).
\<close>

definition unique_keys :: "(label \<times> string) list" where
  "unique_keys = [(Block, ''hash''), (Block, ''number''), (Address, ''address''),
                  (Transaction, ''hash'')]"

definition clash :: "graph \<Rightarrow> label set \<Rightarrow> (string \<times> pval) list \<Rightarrow> label \<times> string \<Rightarrow> bool" where
  "clash g ls ps c =
     (case map_of ps (snd c) of
        None \<Rightarrow> False
      | Some v \<Rightarrow> fst c \<in> ls \<and> match_nodes g [fst c] [(snd c, v)] \<noteq> [])"

definition node_key_broken :: "graph \<Rightarrow> label set \<Rightarrow> (string \<times> pval) list \<Rightarrow> bool" where
  "node_key_broken g ls ps =
     (TokenTransfer \<in> ls \<and>
      (case (map_of ps ''transaction_hash'', map_of ps ''log_index'') of
         (Some h, Some i) \<Rightarrow>
           match_nodes g [TokenTransfer] [(''transaction_hash'', h), (''log_index'', i)] \<noteq> []
       | _ \<Rightarrow> True))"

definition violates :: "graph \<Rightarrow> label set \<Rightarrow> (string \<times> pval) list \<Rightarrow> bool" where
  "violates g ls ps = (list_ex (clash g ls ps) unique_keys \<or> node_key_broken g ls ps)"

text \<open>\<open>CREATE (n:Labels {props})\<close>.\<close>

definition create_node :: "graph \<Rightarrow> label set \<Rightarrow> (string \<times> pval) list \<Rightarrow> error + graph" where
  "create_node g ls ps =
     (if violates g ls (stored ps) then Inl ConstraintError
      else Inr (g\<lparr>nodes := nodes g @ [\<lparr>nid = fresh_id g, labels = ls, props = stored ps\<rparr>]\<rparr>))"

text \<open>\<open>MERGE (n:Labels {props})\<close>: nothing happens when a node matches the whole pattern.\<close>

definition merge_node :: "graph \<Rightarrow> label list \<Rightarrow> (string \<times> pval) list \<Rightarrow> error + graph" where
  "merge_node g ls ps =
     (if match_nodes g ls ps \<noteq> [] then Inr g else create_node g (set ls) ps)"

definition mk_edge :: "nat \<Rightarrow> rel \<Rightarrow> nat \<Rightarrow> (string \<times> pval) list \<Rightarrow> edge" where
  "mk_edge a r b ps = \<lparr>src = a, kind = r, dst = b, eprops = stored ps\<rparr>"

definition add_edges :: "graph \<Rightarrow> edge list \<Rightarrow> graph" where
  "add_edges g es = g\<lparr>edges := edges g @ es\<rparr>"

text \<open>
  \<open>MATCH (a ...) SET a :L SET a.k = v ...\<close>: the label and the properties are put on
  every matched node. None of the labels set by the program carries a constraint.
\<close>

definition set_prop :: "(string \<times> pval) list \<Rightarrow> string \<times> pval \<Rightarrow> (string \<times> pval) list" where
  "set_prop ps kv =
     (if snd kv = PNull then filter (\<lambda>p. fst p \<noteq> fst kv) ps
      else if map_of ps (fst kv) = None then ps @ [kv]
      else map (\<lambda>p. if fst p = fst kv then kv else p) ps)"

definition set_on :: "label list \<Rightarrow> (string \<times> pval) list \<Rightarrow> label \<Rightarrow> (string \<times> pval) list \<Rightarrow> node \<Rightarrow> node" where
  "set_on ls ps l kvs n =
     (if matches ls ps n then n\<lparr>labels := insert l (labels n), props := foldl set_prop (props n) kvs\<rparr>
      else n)"

definition set_nodes :: "graph \<Rightarrow> label list \<Rightarrow> (string \<times> pval) list \<Rightarrow> label \<Rightarrow> (string \<times> pval) list \<Rightarrow> graph" where
  "set_nodes g ls ps l kvs = g\<lparr>nodes := map (set_on ls ps l kvs) (nodes g)\<rparr>"

text \<open>
  What \<open>t.run(...).values()\<close> gives back for a query ending in \<open>return count(..)\<close>:
  one row holding the count. A query with no \<open>RETURN\<close> clause gives no row.
\<close>

type_synonym rows = "int list list"

definition counted :: "'a list \<Rightarrow> rows" where
  "counted xs = [[int (length xs)]]"

text \<open>\<open>assert results[0][0] == 1\<close>.\<close>

definition assert_one :: "rows \<Rightarrow> graph \<Rightarrow> error + graph" where
  "assert_one results g =
     (case results of
        [] \<Rightarrow> Inl IndexError
      | r # _ \<Rightarrow> (case r of [] \<Rightarrow> Inl IndexError
                 | c # _ \<Rightarrow> if c = 1 then Inr g else Inl AssertionError))"

text \<open>A query whose result the caller asserts on, and sequencing of steps that may raise.\<close>

definition checked :: "error + rows \<times> graph \<Rightarrow> error + graph" where
  "checked r = (case r of Inl e \<Rightarrow> Inl e | Inr (results, g) \<Rightarrow> assert_one results g)"

definition bind :: "error + 'a \<Rightarrow> ('a \<Rightarrow> error + 'b) \<Rightarrow> error + 'b" where
  "bind r f = (case r of Inl e \<Rightarrow> Inl e | Inr x \<Rightarrow> f x)"

fun foldM :: "('a \<Rightarrow> 's \<Rightarrow> error + 's) \<Rightarrow> 'a list \<Rightarrow> 's \<Rightarrow> error + 's" where
  "foldM f [] s = Inr s"
| "foldM f (x # xs) s = bind (f x s) (foldM f xs)"

section \<open>Chain records\<close>

text \<open>
  The records the chain client returns, with the fields the program reads.
  \<open>transactionIndex\<close> is taken as the integer the client delivers.
\<close>

record log_entry =
  l_topics :: "hexval list option"
  l_data :: string
  l_address :: string
  l_transactionHash :: hexval
  l_logIndex :: int
  l_blockNumber :: int

record receipt =
  r_contractAddress :: string
  r_logs :: "log_entry list"
  r_gasUsed :: int

record transaction =
  tx_hash :: hexval
  tx_from :: string
  tx_to :: "string option"
  tx_value :: int
  tx_input :: string
  tx_nonce :: int
  tx_r :: hexval
  tx_s :: hexval
  tx_v :: int
  tx_transactionIndex :: int
  tx_gas :: int
  tx_gasPrice :: int

record uncle =
  u_miner :: string
  u_number :: string

record block =
  b_number :: int
  b_hash :: hexval
  b_timestamp :: int
  b_size :: int
  b_nonce :: hexval
  b_difficulty :: int
  b_totalDifficulty :: int
  b_gasLimit :: int
  b_gasUsed :: int
  b_miner :: string
  b_uncles :: "hexval list"
  b_transactions :: "transaction list"

text \<open>The class \<open>EthTokenTransfer\<close>.\<close>

record EthTokenTransfer =
  token_address :: string
  from_address :: string
  to_address :: string
  tt_value :: int
  transaction_hash :: string
  log_index :: int
  block_number :: int
  value_raw :: hexval

text \<open>
  The block after \<open>enhance_block\<close>: the attributes it attaches (\<open>uncle_blocks\<close>,
  \<open>created_contracts\<close>, \<open>transfers\<close>, \<open>transaction_receipt\<close>, \<open>reward\<close>) beside the
  block's own fields. The three dictionaries are keyed by transaction hash.
\<close>

record enhanced =
  raw :: block
  uncle_blocks :: "uncle list"
  created_contracts :: "string \<rightharpoonup> string"
  transfers :: "string \<rightharpoonup> EthTokenTransfer list"
  transaction_receipt :: "string \<rightharpoonup> receipt"
  reward :: int

text \<open>
  The collaborators and helpers that live outside the embedded sources: the chain
  client (\<open>None\<close> is a failed call), the reward schedule of module
  \<open>reward_calculator\<close>, \<open>helpers.hex_to_int\<close> and the two bytecode classifiers of
  \<open>EthContractService\<close>.
\<close>

record env =
  get_block :: "int \<Rightarrow> block option"
  get_uncle_by_block :: "int \<Rightarrow> nat \<Rightarrow> uncle option"
  get_transaction_receipt :: "string \<Rightarrow> receipt option"
  getCode :: "string \<Rightarrow> hexval option"
  get_const_reward :: "int \<Rightarrow> int"
  get_uncle_reward :: "int \<Rightarrow> int \<Rightarrow> int"
  hex_to_int :: "string \<Rightarrow> int"
  is_ERC20 :: "string \<Rightarrow> bool"
  is_ERC721 :: "string \<Rightarrow> bool"

text \<open>\<open>get_hash\<close> on a transaction: its \<open>hash\<close> field, as a string.\<close>

definition get_hash :: "transaction \<Rightarrow> string" where
  "get_hash transaction = unhex (tx_hash transaction)"

section \<open>GraphWriter\<close>

text \<open>
  \<open>MATCH (a ...), (b ...) CREATE p=(a)-[:R {props}]->(b) return count(p)\<close>: one edge
  and one counted path for every pair of matched nodes.
\<close>

definition create_links ::
  "graph \<Rightarrow> node list \<Rightarrow> rel \<Rightarrow> (string \<times> pval) list \<Rightarrow> node list \<Rightarrow> error + rows \<times> graph" where
  "create_links g as r ps bs =
     Inr (counted (List.product as bs),
          add_edges g (map (\<lambda>ab. mk_edge (nid (fst ab)) r (nid (snd ab)) ps) (List.product as bs)))"

text \<open>
  \<open>MATCH (m ...), (a ...), (b ...) CREATE p=(a)-[:R1]->(m)-[:R2]->(b) return count(p)\<close>.
\<close>

definition create_paths ::
  "graph \<Rightarrow> node list \<Rightarrow> rel \<Rightarrow> node list \<Rightarrow> rel \<Rightarrow> node list \<Rightarrow> error + rows \<times> graph" where
  "create_paths g as r1 ms r2 bs =
     Inr (counted (List.product ms (List.product as bs)),
          add_edges g (concat (map (\<lambda>mab.
              [mk_edge (nid (fst (snd mab))) r1 (nid (fst mab)) [],
               mk_edge (nid (fst mab)) r2 (nid (snd (snd mab))) []])
            (List.product ms (List.product as bs)))))"

text \<open>
  \<open>MATCH (tx ...), (from ...) CREATE p=(from)-[:R1]->(tx)-[:R2]->(new_contract)
  return count(p)\<close>: the variable \<open>new_contract\<close> is bound by no \<open>MATCH\<close>, so every
  matched pair gets a node of its own, with no label and no property, at the end of
  the path.
\<close>

definition path_to_new :: "rel \<Rightarrow> rel \<Rightarrow> node \<times> node \<Rightarrow> graph \<Rightarrow> graph" where
  "path_to_new r1 r2 mf g =
     add_edges (g\<lparr>nodes := nodes g @ [\<lparr>nid = fresh_id g, labels = {}, props = []\<rparr>]\<rparr>)
       [mk_edge (nid (snd mf)) r1 (nid (fst mf)) [],
        mk_edge (nid (fst mf)) r2 (fresh_id g) []]"

definition create_paths_to_new ::
  "graph \<Rightarrow> node list \<Rightarrow> rel \<Rightarrow> node list \<Rightarrow> rel \<Rightarrow> error + rows \<times> graph" where
  "create_paths_to_new g as r1 ms r2 =
     Inr (counted (List.product ms as), fold (path_to_new r1 r2) (List.product ms as) g)"

text \<open>\<open>CREATE (n:L {props}) return count(n)\<close>.\<close>

definition create_counted :: "graph \<Rightarrow> label set \<Rightarrow> (string \<times> pval) list \<Rightarrow> error + rows \<times> graph" where
  "create_counted g ls ps = bind (create_node g ls ps) (\<lambda>g'. Inr ([[1]], g'))"

text \<open>\<open>CREATE (n:L {props})\<close> with no \<open>RETURN\<close> clause.\<close>

definition create_silent :: "graph \<Rightarrow> label set \<Rightarrow> (string \<times> pval) list \<Rightarrow> error + rows \<times> graph" where
  "create_silent g ls ps = bind (create_node g ls ps) (\<lambda>g'. Inr ([], g'))"

definition block_nodes :: "graph \<Rightarrow> int \<Rightarrow> node list" where
  "block_nodes g number = match_nodes g [Block] [(''number'', PInt number)]"

definition address_nodes :: "graph \<Rightarrow> string \<Rightarrow> node list" where
  "address_nodes g a = match_nodes g [Address] [(''address'', PStr a)]"

definition tx_nodes :: "graph \<Rightarrow> string \<Rightarrow> node list" where
  "tx_nodes g h = match_nodes g [Transaction] [(''hash'', PStr h)]"

definition transfer_nodes :: "graph \<Rightarrow> string \<Rightarrow> int \<Rightarrow> node list" where
  "transfer_nodes g h i =
     match_nodes g [TokenTransfer] [(''transaction_hash'', PStr h), (''log_index'', PInt i)]"

definition uncle_reward_edge :: "env \<Rightarrow> enhanced \<Rightarrow> uncle \<Rightarrow> graph \<Rightarrow> error + graph" where
  "uncle_reward_edge E block uncle_block t =
     checked (create_links t (block_nodes t (b_number (raw block))) UNCLE_REWARD
        [(''value'', PStr (str_int (get_uncle_reward E (b_number (raw block))
                                      (hex_to_int E (u_number uncle_block)))))]
        (address_nodes t (u_miner uncle_block)))"

definition parse_block_header :: "env \<Rightarrow> enhanced \<Rightarrow> graph \<Rightarrow> error + graph" where
  "parse_block_header E block t =
     bind (checked (create_counted t {Block}
        [(''number'', PInt (b_number (raw block))),
         (''hash'', PStr (unhex (b_hash (raw block)))),
         (''timestamp'', PInt (b_timestamp (raw block))),
         (''size'', PInt (b_size (raw block))),
         (''nonce'', PStr (unhex (b_nonce (raw block)))),
         (''difficulty'', PStr (str_int (b_difficulty (raw block)))),
         (''totalDifficulty'', PStr (str_int (b_totalDifficulty (raw block)))),
         (''gasLimit'', PStr (str_int (b_gasLimit (raw block)))),
         (''gasUsed'', PStr (str_int (b_gasUsed (raw block))))]))
     (\<lambda>t1. bind (checked (create_links t1 (block_nodes t1 (b_number (raw block))) BLOCK_REWARD
                    [(''value'', PStr (str_int (reward block)))]
                    (address_nodes t1 (b_miner (raw block)))))
     (foldM (uncle_reward_edge E block) (uncle_blocks block)))"

definition opt_str :: "string option \<Rightarrow> pval" where
  "opt_str v = (case v of None \<Rightarrow> PNull | Some s \<Rightarrow> PStr s)"

text \<open>The query of \<open>insert_Transaction\<close>: a \<open>CREATE\<close> with no \<open>RETURN\<close> clause.\<close>

definition create_Transaction :: "transaction \<Rightarrow> graph \<Rightarrow> error + rows \<times> graph" where
  "create_Transaction transaction t =
     create_silent t {Transaction}
        [(''hash'', PStr (unhex (tx_hash transaction))),
         (''from'', PStr (tx_from transaction)),
         (''to'', opt_str (tx_to transaction)),
         (''value'', PStr (str_int (tx_value transaction))),
         (''input'', PStr (tx_input transaction)),
         (''nonce'', PInt (tx_nonce transaction)),
         (''r'', PStr (unhex (tx_r transaction))),
         (''s'', PStr (unhex (tx_s transaction))),
         (''v'', PInt (tx_v transaction)),
         (''transactionIndex'', PInt (tx_transactionIndex transaction)),
         (''gas'', PStr (str_int (tx_gas transaction))),
         (''gasPrice'', PStr (str_int (tx_gasPrice transaction)))]"

text \<open>\<open>insert_Transaction\<close> runs the query and does not look at what comes back.\<close>

definition insert_Transaction :: "transaction \<Rightarrow> graph \<Rightarrow> error + graph" where
  "insert_Transaction transaction t =
     bind (create_Transaction transaction t) (\<lambda>r. Inr (snd r))"

definition insert_TokenTransfer :: "EthTokenTransfer \<Rightarrow> graph \<Rightarrow> error + graph" where
  "insert_TokenTransfer transfer t =
     bind (checked (create_counted t {TokenTransfer}
        [(''transaction_hash'', PStr (transaction_hash transfer)),
         (''log_index'', PInt (log_index transfer)),
         (''token_address'', PStr (token_address transfer)),
         (''value'', PStr (str_int (tt_value transfer))),
         (''value_raw'', param (value_raw transfer))]))
     (\<lambda>t1. bind (checked (create_paths t1
                    (address_nodes t1 (from_address transfer)) SEND_TOKEN
                    (transfer_nodes t1 (transaction_hash transfer) (log_index transfer)) TOKEN_TO
                    (address_nodes t1 (to_address transfer))))
     (\<lambda>t2. checked (create_links t2 (tx_nodes t2 (transaction_hash transfer)) CALL_TOKEN_TRANSFER []
                    (transfer_nodes t2 (transaction_hash transfer) (log_index transfer)))))"

definition insert_block_conatins_tx :: "int \<Rightarrow> string \<Rightarrow> graph \<Rightarrow> error + graph" where
  "insert_block_conatins_tx number h t =
     checked (create_links t (block_nodes t number) CONTAINS [] (tx_nodes t h))"

text \<open>
  \<open>parse_block_tx\<close>. In the branch of a transaction without \<open>to\<close>, the parameter
  \<open>new_contract_address\<close> is handed to the driver but the query text does not mention
  it; only the dictionary lookup that produces it can fail.
\<close>

definition parse_block_tx :: "enhanced \<Rightarrow> transaction \<Rightarrow> graph \<Rightarrow> error + graph" where
  "parse_block_tx block transaction t =
     bind (insert_Transaction transaction t)
     (\<lambda>t1. bind
        (case tx_to transaction of
           Some to_addr \<Rightarrow>
             checked (create_paths t1 (address_nodes t1 (tx_from transaction)) SEND
                        (tx_nodes t1 (unhex (tx_hash transaction))) TO
                        (address_nodes t1 to_addr))
         | None \<Rightarrow>
             (case created_contracts block (get_hash transaction) of
                None \<Rightarrow> Inl KeyError
              | Some new_contract_address \<Rightarrow>
                  checked (create_paths_to_new t1 (address_nodes t1 (tx_from transaction)) SEND
                             (tx_nodes t1 (unhex (tx_hash transaction))) CALL_CONTRACT_CREATION)))
     (\<lambda>t2. bind
        (case transfers block (get_hash transaction) of
           None \<Rightarrow> Inl KeyError
         | Some ts \<Rightarrow> foldM insert_TokenTransfer ts t2)
     (\<lambda>t3. checked (create_links t3 (block_nodes t3 (b_number (raw block))) CONTAINS []
                      (tx_nodes t3 (get_hash transaction))))))"

section \<open>LogTransferDecoder\<close>

definition TRANSFER_EVENT_TOPIC :: string where
  "TRANSFER_EVENT_TOPIC = ''0xddf252ad1be2c89b69c2b068fc378daa952ba7f163c4a11628f55a4df523b3ef''"

text \<open>
  Modelled from the spec: \<open>chunk_string\<close> of module \<open>ethereumetl.utils\<close>, which is not
  among the sources. The payload is split into consecutive words of the given
  length (64 hex characters), the last one possibly shorter.
\<close>

function chunk_string :: "string \<Rightarrow> nat \<Rightarrow> string list" where
  "chunk_string s n =
     (if n = 0 \<or> s = [] then [] else take n s # chunk_string (drop n s) n)"
  by pat_completeness auto
termination
  by (relation "measure (\<lambda>(s, n). length s)") auto

declare chunk_string.simps [simp del]

definition lower_char :: "char \<Rightarrow> char" where
  "lower_char c =
     (if 65 \<le> (of_char c :: nat) \<and> (of_char c :: nat) \<le> 90
      then char_of ((of_char c :: nat) + 32) else c)"

text \<open>
  Modelled from the spec: \<open>to_normalized_address\<close> of module \<open>ethereumetl.utils\<close>,
  which is not among the sources: the address in lower case.
\<close>

definition to_normalized_address :: "string \<Rightarrow> string" where
  "to_normalized_address a = map lower_char a"

definition hex_value :: "char \<Rightarrow> nat option" where
  "hex_value c =
     (if 48 \<le> (of_char c :: nat) \<and> (of_char c :: nat) \<le> 57 then Some (of_char c - 48)
      else if 97 \<le> (of_char c :: nat) \<and> (of_char c :: nat) \<le> 102 then Some (of_char c - 87)
      else if 65 \<le> (of_char c :: nat) \<and> (of_char c :: nat) \<le> 70 then Some (of_char c - 55)
      else None)"

fun hex_digits :: "string \<Rightarrow> nat \<Rightarrow> nat option" where
  "hex_digits [] acc = Some acc"
| "hex_digits (c # cs) acc =
     (case hex_value c of None \<Rightarrow> None | Some d \<Rightarrow> hex_digits cs (16 * acc + d))"

definition strip_0x :: "string \<Rightarrow> string" where
  "strip_0x s = (if take 2 s = ''0x'' \<or> take 2 s = ''0X'' then drop 2 s else s)"

text \<open>
  Modelled from the spec: \<open>hex_to_dec\<close> of module \<open>ethereumetl.utils\<close>, which is not
  among the sources. The word is hex-decoded to an unsigned integer; \<open>None\<close> stands
  for the \<open>ValueError\<close> of a word that is not a hex-encoded integer. A byte buffer is
  read as the text it holds.
\<close>

definition hex_to_dec :: "hexval \<Rightarrow> int option" where
  "hex_to_dec w =
     (let s = strip_0x (case w of Str s \<Rightarrow> s | HexBytes bs \<Rightarrow> map char_of bs)
      in if s = [] then None else map_option int (hex_digits s 0))"

definition split_to_words :: "string \<Rightarrow> hexval list" where
  "split_to_words d =
     (if d \<noteq> [] \<and> length d > 2 then map (\<lambda>word. Str (''0x'' @ word)) (chunk_string (drop 2 d) 64)
      else [])"

definition word_to_address :: "hexval \<Rightarrow> string" where
  "word_to_address p =
     (if length (unhex p) \<ge> 40
      then to_normalized_address (''0x'' @ drop (length (unhex p) - 40) (unhex p))
      else to_normalized_address (unhex p))"

definition parse_transfer :: "hexval list \<Rightarrow> log_entry \<Rightarrow> EthTokenTransfer option" where
  "parse_transfer topics receipt_log =
     (let topics_with_data = topics @ split_to_words (l_data receipt_log)
      in if length topics_with_data \<noteq> 4 then None
         else (case hex_to_dec (topics_with_data ! 3) of
                 None \<Rightarrow> None
               | Some v \<Rightarrow> Some
                   \<lparr>token_address = to_normalized_address (l_address receipt_log),
                    from_address = word_to_address (topics_with_data ! 1),
                    to_address = word_to_address (topics_with_data ! 2),
                    tt_value = v,
                    transaction_hash = unhex (l_transactionHash receipt_log),
                    log_index = l_logIndex receipt_log,
                    block_number = l_blockNumber receipt_log,
                    value_raw = topics_with_data ! 3\<rparr>))"

text \<open>
  \<open>extract_transfer_from_log\<close>: a first topic of type \<open>str\<close> is compared with the
  signature; a first topic of type \<open>HexBytes\<close> goes to \<open>_parse_transfer\<close> as it is.
\<close>

definition extract_transfer_from_log :: "log_entry \<Rightarrow> EthTokenTransfer option" where
  "extract_transfer_from_log receipt_log =
     (case l_topics receipt_log of
        None \<Rightarrow> None
      | Some topics \<Rightarrow>
          (case topics of
             [] \<Rightarrow> None
           | Str s # _ \<Rightarrow>
               if s = TRANSFER_EVENT_TOPIC then parse_transfer topics receipt_log else None
           | HexBytes _ # _ \<Rightarrow> parse_transfer topics receipt_log))"

section \<open>BlockEnricher\<close>

fun fetch_uncles :: "env \<Rightarrow> int \<Rightarrow> nat list \<Rightarrow> error + uncle list" where
  "fetch_uncles E number [] = Inr []"
| "fetch_uncles E number (uncle_idx # rest) =
     (case get_uncle_by_block E number uncle_idx of
        None \<Rightarrow> Inl RpcError
      | Some uncle_block \<Rightarrow> bind (fetch_uncles E number rest) (\<lambda>us. Inr (uncle_block # us)))"

text \<open>Python truthiness of \<open>transaction.to\<close>: neither \<open>None\<close> nor the empty string.\<close>

definition truthy_to :: "string option \<Rightarrow> bool" where
  "truthy_to v = (case v of None \<Rightarrow> False | Some s \<Rightarrow> s \<noteq> [])"

definition get_new_contract_address :: "env \<Rightarrow> string \<Rightarrow> error + string" where
  "get_new_contract_address E h =
     (case get_transaction_receipt E h of
        None \<Rightarrow> Inl RpcError
      | Some rcpt \<Rightarrow> Inr (r_contractAddress rcpt))"

text \<open>One turn of the loop over \<open>block.transactions\<close> in \<open>enhance_block\<close>.\<close>

definition enhance_tx :: "env \<Rightarrow> transaction \<Rightarrow> enhanced \<Rightarrow> error + enhanced" where
  "enhance_tx E transaction block =
     bind (if \<not> truthy_to (tx_to transaction)
           then bind (get_new_contract_address E (get_hash transaction))
                  (\<lambda>new_contract_address. Inr (block\<lparr>created_contracts :=
                       (created_contracts block)(get_hash transaction \<mapsto> new_contract_address)\<rparr>))
           else Inr block)
     (\<lambda>block1.
        (case get_transaction_receipt E (get_hash transaction) of
           None \<Rightarrow> Inl RpcError
         | Some rcpt \<Rightarrow> Inr (block1
             \<lparr>transfers := (transfers block1)(get_hash transaction \<mapsto>
                  List.map_filter extract_transfer_from_log (r_logs rcpt)),
              transaction_receipt := (transaction_receipt block1)(get_hash transaction \<mapsto> rcpt),
              reward := reward block1 + r_gasUsed rcpt * tx_gasPrice transaction\<rparr>)))"

definition enhance_block :: "env \<Rightarrow> block \<Rightarrow> error + enhanced" where
  "enhance_block E block =
     bind (fetch_uncles E (b_number block) [0 ..< length (b_uncles block)])
     (\<lambda>us. foldM (enhance_tx E) (b_transactions block)
        \<lparr>raw = block, uncle_blocks = us, created_contracts = Map.empty,
         transfers = Map.empty, transaction_receipt = Map.empty,
         reward = get_const_reward E (b_number block)\<rparr>)"

section \<open>AddressClassifier\<close>

text \<open>
  \<open>MATCH (a:Address {address: $address}) OPTIONAL MATCH (c:Address:L {address: $address})
  return a, c\<close>, read with \<open>.data()\<close>: a list of dictionaries with the keys \<open>a\<close> and
  \<open>c\<close>, where \<open>c\<close> is null when no node carries the label.
\<close>

type_synonym record_dict = "(string \<times> node option) list"

definition try_get :: "label \<Rightarrow> graph \<Rightarrow> string \<Rightarrow> record_dict list" where
  "try_get l t a =
     concat (map (\<lambda>an.
        (case match_nodes t [Address, l] [(''address'', PStr a)] of
           [] \<Rightarrow> [[(''a'', Some an), (''c'', None)]]
         | cs \<Rightarrow> map (\<lambda>cn. [(''a'', Some an), (''c'', Some cn)]) cs))
       (address_nodes t a))"

text \<open>\<open>d.get(k)\<close>: \<open>None\<close> for a key the dictionary does not have.\<close>

definition dict_get :: "record_dict \<Rightarrow> string \<Rightarrow> node option" where
  "dict_get d k = (case map_of d k of None \<Rightarrow> None | Some v \<Rightarrow> v)"

text \<open>The \<open>except Exception\<close> clause: the error is logged and the process exits.\<close>

definition or_exit :: "error + 'a \<Rightarrow> error + 'a" where
  "or_exit r = (case r of Inl e \<Rightarrow> Inl ProcessExit | Inr x \<Rightarrow> Inr x)"

text \<open>
  \<open>get_bytecode\<close> passes the address through \<open>Web3.toChecksumAddress\<close> of the web3
  library, which raises \<open>ValueError\<close> unless the string is a hex address of 20 bytes:
  40 hex digits, with or without the prefix \<open>0x\<close>. The capitals that the checksum
  puts into the address mean nothing to the node; the model hands the address to
  \<open>getCode\<close> in lower case.
\<close>

definition is_hex_address :: "string \<Rightarrow> bool" where
  "is_hex_address a =
     (length (strip_0x a) = 40 \<and> list_all (\<lambda>c. hex_value c \<noteq> None) (strip_0x a))"

definition toChecksumAddress :: "string \<Rightarrow> error + string" where
  "toChecksumAddress a =
     (if is_hex_address a then Inr (''0x'' @ map lower_char (strip_0x a)) else Inl ValueError)"

definition get_bytecode :: "env \<Rightarrow> string \<Rightarrow> error + string" where
  "get_bytecode E a =
     bind (toChecksumAddress a) (\<lambda>c.
       case getCode E c of None \<Rightarrow> Inl RpcError | Some b \<Rightarrow> Inr (unhex b))"

definition insert_Address_Contract :: "env \<Rightarrow> hexval \<Rightarrow> graph \<Rightarrow> error + graph" where
  "insert_Address_Contract E a g =
     (case try_get Contract g (unhex a) of
        [] \<Rightarrow> or_exit (bind (get_bytecode E (unhex a)) (\<lambda>bytecode.
                 merge_node g [Address, Contract]
                   [(''address'', PStr (unhex a)), (''is_erc20'', PBool (is_ERC20 E bytecode)),
                    (''is_erc721'', PBool (is_ERC721 E bytecode)), (''bytecode'', PStr bytecode)]))
      | d # _ \<Rightarrow>
          (case map_of d ''c'' of
             None \<Rightarrow> Inl ProcessExit
           | Some (Some c) \<Rightarrow> Inr g
           | Some None \<Rightarrow> or_exit (bind (get_bytecode E (unhex a)) (\<lambda>bytecode.
                 Inr (set_nodes g [Address] [(''address'', PStr (unhex a))] Contract
                        [(''is_erc20'', PBool (is_ERC20 E bytecode)),
                         (''is_erc721'', PBool (is_ERC721 E bytecode))])))))"

text \<open>
  \<open>insert_Address_EOA\<close>: the second test reads the key \<open>eoa\<close>, which the rows do not
  have, with \<open>.get\<close>.
\<close>

definition insert_Address_EOA :: "hexval \<Rightarrow> graph \<Rightarrow> error + graph" where
  "insert_Address_EOA a g =
     (case try_get EOA g (unhex a) of
        [] \<Rightarrow> or_exit (merge_node g [Address, EOA] [(''address'', PStr (unhex a))])
      | d # _ \<Rightarrow>
          if dict_get d ''eoa'' = None
          then Inr (set_nodes g [Address] [(''address'', PStr (unhex a))] EOA [])
          else Inr g)"

text \<open>
  \<open>insert_Address_Unknown\<close>: \<open>try_get_Addr\<close> returns the result of \<open>t.run\<close> as it is,
  without reading its rows, and \<open>result.values()\<close> is called after the read
  transaction has ended. The driver consumes a result when its transaction ends, so
  no row is left, whatever the query matched.
\<close>

definition late_values :: "node list \<Rightarrow> node list" where
  "late_values ns = []"

definition insert_Address_Unknown :: "hexval \<Rightarrow> graph \<Rightarrow> error + graph" where
  "insert_Address_Unknown a g =
     (if length (late_values (address_nodes g (unhex a))) = 0
      then or_exit (insert_Address_EOA (Str (unhex a)) g)
      else Inr g)"

definition lookup :: "('k \<rightharpoonup> 'v) \<Rightarrow> 'k \<Rightarrow> error + 'v" where
  "lookup d k = (case d k of None \<Rightarrow> Inl KeyError | Some v \<Rightarrow> Inr v)"

definition ensure_transfer :: "EthTokenTransfer \<Rightarrow> graph \<Rightarrow> error + graph" where
  "ensure_transfer transfer g =
     bind (insert_Address_Unknown (Str (from_address transfer)) g)
          (insert_Address_Unknown (Str (to_address transfer)))"

definition ensure_tx :: "env \<Rightarrow> enhanced \<Rightarrow> transaction \<Rightarrow> graph \<Rightarrow> error + graph" where
  "ensure_tx E block transaction g =
     bind (case tx_to transaction of
             Some to_addr \<Rightarrow>
               if to_addr \<noteq> [] then
                 bind (insert_Address_EOA (Str (tx_from transaction)) g) (\<lambda>g1.
                 bind (lookup (transaction_receipt block) (get_hash transaction)) (\<lambda>rcpt.
                   if length (r_logs rcpt) > 0 then insert_Address_Contract E (Str to_addr) g1
                   else insert_Address_Unknown (Str to_addr) g1))
               else
                 bind (insert_Address_EOA (Str (tx_from transaction)) g) (\<lambda>g1.
                 bind (lookup (created_contracts block) (get_hash transaction)) (\<lambda>c.
                   insert_Address_Contract E (Str c) g1))
           | None \<Rightarrow>
               bind (insert_Address_EOA (Str (tx_from transaction)) g) (\<lambda>g1.
               bind (lookup (created_contracts block) (get_hash transaction)) (\<lambda>c.
                 insert_Address_Contract E (Str c) g1)))
     (\<lambda>g2. bind (lookup (transfers block) (get_hash transaction)) (\<lambda>ts.
        foldM ensure_transfer ts g2))"

definition ensure_uncle :: "uncle \<Rightarrow> graph \<Rightarrow> error + graph" where
  "ensure_uncle uncle_block g = insert_Address_EOA (Str (u_miner uncle_block)) g"

definition ensure_block_Addresses :: "env \<Rightarrow> enhanced \<Rightarrow> graph \<Rightarrow> error + graph" where
  "ensure_block_Addresses E block g =
     bind (insert_Address_EOA (Str (b_miner (raw block))) g) (\<lambda>g1.
     bind (foldM ensure_uncle (uncle_blocks block) g1)
          (foldM (ensure_tx E block) (b_transactions (raw block))))"

section \<open>SyncEngine\<close>

text \<open>
  \<open>get_local_Block\<close> and \<open>get_local_Transaction\<close> read the rows with \<open>.data()\<close>, which
  turns a node into the dictionary of its properties: the result is that dictionary
  when exactly one row came back and \<open>None\<close> otherwise. The callers test it for
  truth.
\<close>

definition single_row :: "node list \<Rightarrow> (string \<times> pval) list option" where
  "single_row ns = (case ns of [n] \<Rightarrow> Some (props n) | _ \<Rightarrow> None)"

definition truthy :: "(string \<times> pval) list option \<Rightarrow> bool" where
  "truthy r = (case r of None \<Rightarrow> False | Some d \<Rightarrow> d \<noteq> [])"

definition get_local_Block :: "graph \<Rightarrow> int \<Rightarrow> (string \<times> pval) list option" where
  "get_local_Block t number = single_row (block_nodes t number)"

definition get_local_Transaction :: "graph \<Rightarrow> string \<Rightarrow> (string \<times> pval) list option" where
  "get_local_Transaction t h = single_row (tx_nodes t h)"

text \<open>
  \<open>get_local_Transfer\<close> returns the query's variable \<open>tf\<close> but indexes the single row
  with the key \<open>tx\<close>, which the row does not have.
\<close>

definition get_local_Transfer :: "graph \<Rightarrow> string \<Rightarrow> int \<Rightarrow> error + (string \<times> pval) list option" where
  "get_local_Transfer t h i =
     (case transfer_nodes t h i of [n] \<Rightarrow> Inl KeyError | _ \<Rightarrow> Inr None)"

text \<open>The loop body of \<open>check_task\<close> for a block that the store has.\<close>

definition check_tx_existing :: "enhanced \<Rightarrow> transaction \<Rightarrow> graph \<Rightarrow> error + graph" where
  "check_tx_existing block transaction g =
     (if \<not> truthy (get_local_Transaction g (get_hash transaction))
      then bind (parse_block_tx block transaction g)
             (insert_block_conatins_tx (b_number (raw block)) (get_hash transaction))
      else Inr g)"

text \<open>
  The loop body of \<open>check_task\<close> for a block that the store lacks. The local variable
  \<open>no_contains\<close> travels with the store; \<open>None\<close> is the variable before its first
  assignment, and it is never reset between transactions.
\<close>

definition check_transfer ::
  "string \<Rightarrow> EthTokenTransfer \<Rightarrow> graph \<times> bool option \<Rightarrow> error + graph \<times> bool option" where
  "check_transfer h transfer s =
     bind (get_local_Transfer (fst s) h (log_index transfer)) (\<lambda>r.
       if \<not> truthy r
       then bind (insert_TokenTransfer transfer (fst s)) (\<lambda>g. Inr (g, Some True))
       else Inr s)"

definition check_tx_missing ::
  "enhanced \<Rightarrow> transaction \<Rightarrow> graph \<times> bool option \<Rightarrow> error + graph \<times> bool option" where
  "check_tx_missing block transaction s =
     bind (if \<not> truthy (get_local_Transaction (fst s) (get_hash transaction))
           then bind (parse_block_tx block transaction (fst s)) (\<lambda>g. Inr (g, Some True))
           else Inr s)
     (\<lambda>s1. bind (lookup (transfers block) (get_hash transaction)) (\<lambda>ts.
        bind (foldM (check_transfer (get_hash transaction)) ts s1) (\<lambda>s2.
          (case snd s2 of
             None \<Rightarrow> Inl UnboundLocalError
           | Some no_contains \<Rightarrow>
               if no_contains
               then bind (insert_block_conatins_tx (b_number (raw block)) (get_hash transaction) (fst s2))
                      (\<lambda>g. Inr (g, snd s2))
               else Inr s2))))"

definition check_task :: "env \<Rightarrow> int \<Rightarrow> graph \<Rightarrow> error + graph" where
  "check_task E number g =
     (case get_block E number of
        None \<Rightarrow> Inl RpcError
      | Some b \<Rightarrow>
          bind (enhance_block E b) (\<lambda>block.
          bind (ensure_block_Addresses E block g) (\<lambda>g1.
            if truthy (get_local_Block g1 number)
            then foldM (check_tx_existing block) (b_transactions (raw block)) g1
            else bind (parse_block_header E block g1) (\<lambda>g2.
                 bind (foldM (check_tx_missing block) (b_transactions (raw block)) (g2, None))
                   (\<lambda>s. Inr (fst s))))))"

text \<open>
  \<open>threadsafe_parse_block_tx\<close> as \<open>sync_task\<close> uses it: the write is submitted to the
  transaction pool and the future is only waited for, so an exception raised by
  \<open>parse_block_tx\<close> is dropped; its write transaction is rolled back and the store
  stays as it was.
\<close>

definition threadsafe_parse_block_tx :: "enhanced \<Rightarrow> transaction \<Rightarrow> graph \<Rightarrow> graph" where
  "threadsafe_parse_block_tx block transaction g =
     (case parse_block_tx block transaction g of Inl e \<Rightarrow> g | Inr g' \<Rightarrow> g')"

text \<open>
  \<open>sync_task\<close>: the header first, then one write transaction per transaction of the
  block. The pool runs those writes in some order; the model takes them in the order
  of the block.
\<close>

definition sync_task :: "env \<Rightarrow> int \<Rightarrow> graph \<Rightarrow> error + graph" where
  "sync_task E block_number_arg g =
     (case get_block E block_number_arg of
        None \<Rightarrow> Inl RpcError
      | Some b \<Rightarrow>
          bind (enhance_block E b) (\<lambda>block.
          bind (ensure_block_Addresses E block g) (\<lambda>g1.
          bind (parse_block_header E block g1) (\<lambda>g2.
            Inr (fold (threadsafe_parse_block_tx block) (b_transactions (raw block)) g2)))))"














section \<open>Sample data\<close>

text \<open>What \<open>RETURN n.k\<close> gives for each node of a list: \<open>None\<close> is a missing property.\<close>

definition prop_values :: "string \<Rightarrow> node list \<Rightarrow> pval option list" where
  "prop_values k ns = map (\<lambda>n. map_of (props n) k) ns"

text \<open>A store with two addresses and one transaction, and a transfer of that transaction.\<close>

definition sample_store :: graph where
  "sample_store =
     \<lparr>nodes = [\<lparr>nid = 1, labels = {Address, EOA}, props = [(''address'', PStr ''0xaa'')]\<rparr>,
               \<lparr>nid = 2, labels = {Address, EOA}, props = [(''address'', PStr ''0xbb'')]\<rparr>,
               \<lparr>nid = 3, labels = {Transaction}, props = [(''hash'', PStr ''0x01'')]\<rparr>],
      edges = []\<rparr>"

definition sample_transfer :: EthTokenTransfer where
  "sample_transfer =
     \<lparr>token_address = ''0xc0'', from_address = ''0xaa'', to_address = ''0xbb'', tt_value = 5,
      transaction_hash = ''0x01'', log_index = 0, block_number = 7, value_raw = Str ''0x05''\<rparr>"

definition sample_store_transfer :: graph where
  "sample_store_transfer =
     \<lparr>nodes = nodes sample_store @
        [\<lparr>nid = 4, labels = {TokenTransfer},
          props = [(''transaction_hash'', PStr ''0x01''), (''log_index'', PInt 0),
                   (''token_address'', PStr ''0xc0''), (''value'', PStr ''5''),
                   (''value_raw'', PStr ''0x05'')]\<rparr>],
      edges = [\<lparr>src = 1, kind = SEND_TOKEN, dst = 4, eprops = []\<rparr>,
               \<lparr>src = 4, kind = TOKEN_TO, dst = 2, eprops = []\<rparr>,
               \<lparr>src = 3, kind = CALL_TOKEN_TRANSFER, dst = 4, eprops = []\<rparr>]\<rparr>"

text \<open>Reading the store back: the edges of a kind, those ending at a node, a node by id.\<close>

definition edges_of_kind :: "graph \<Rightarrow> rel \<Rightarrow> edge list" where
  "edges_of_kind g r = filter (\<lambda>e. kind e = r) (edges g)"

definition edges_into :: "graph \<Rightarrow> rel \<Rightarrow> nat \<Rightarrow> edge list" where
  "edges_into g r k = filter (\<lambda>e. kind e = r \<and> dst e = k) (edges g)"

definition nodes_with_id :: "graph \<Rightarrow> nat \<Rightarrow> node list" where
  "nodes_with_id g k = filter (\<lambda>n. nid n = k) (nodes g)"

text \<open>
  Block 7 holds one transaction without \<open>to\<close>; its receipt names the created contract
  \<open>0xcc\<close> and carries one Transfer log of 42 units from \<open>0x..bb\<close> to \<open>0x..dd\<close>.
\<close>

definition sample_word :: "string \<Rightarrow> string" where
  "sample_word suffix = ''0x'' @ replicate (64 - length suffix) (CHR ''0'') @ suffix"

definition creation_log :: log_entry where
  "creation_log =
     \<lparr>l_topics = Some [Str TRANSFER_EVENT_TOPIC, Str (sample_word ''bb''), Str (sample_word ''dd'')],
      l_data = sample_word ''2a'', l_address = ''0xCC'', l_transactionHash = HexBytes [1],
      l_logIndex = 0, l_blockNumber = 7\<rparr>"

definition creation_transfer :: EthTokenTransfer where
  "creation_transfer =
     \<lparr>token_address = ''0xcc'',
      from_address = ''0x00000000000000000000000000000000000000bb'',
      to_address = ''0x00000000000000000000000000000000000000dd'',
      tt_value = 42, transaction_hash = ''0x01'', log_index = 0, block_number = 7,
      value_raw = Str ''0x000000000000000000000000000000000000000000000000000000000000002a''\<rparr>"

definition creation_tx :: transaction where
  "creation_tx =
     \<lparr>tx_hash = HexBytes [1], tx_from = ''0xaa'', tx_to = None, tx_value = 0, tx_input = ''0x60'',
      tx_nonce = 0, tx_r = Str ''0x1'', tx_s = Str ''0x2'', tx_v = 27, tx_transactionIndex = 0,
      tx_gas = 21, tx_gasPrice = 2\<rparr>"

definition creation_block :: block where
  "creation_block =
     \<lparr>b_number = 7, b_hash = HexBytes [7], b_timestamp = 100, b_size = 1, b_nonce = Str ''0x0'',
      b_difficulty = 1, b_totalDifficulty = 1, b_gasLimit = 30, b_gasUsed = 3, b_miner = ''0xee'',
      b_uncles = [], b_transactions = [creation_tx]\<rparr>"

definition creation_env :: env where
  "creation_env =
     \<lparr>get_block = (\<lambda>n. if n = 7 then Some creation_block else None),
      get_uncle_by_block = (\<lambda>n i. None),
      get_transaction_receipt = (\<lambda>h. if h = ''0x01''
         then Some \<lparr>r_contractAddress = ''0xcc'', r_logs = [creation_log], r_gasUsed = 3\<rparr> else None),
      getCode = (\<lambda>a. Some (Str ''0x6080'')),
      get_const_reward = (\<lambda>n. 50),
      get_uncle_reward = (\<lambda>n u. (u + 8 - n) * 50 div 8),
      hex_to_int = (\<lambda>s. case hex_to_dec (Str s) of None \<Rightarrow> 0 | Some v \<Rightarrow> v),
      is_ERC20 = (\<lambda>b. False),
      is_ERC721 = (\<lambda>b. False)\<rparr>"

definition creation_tx_node :: node where
  "creation_tx_node =
     \<lparr>nid = 7, labels = {Transaction},
      props = [(''hash'', PStr ''0x01''), (''from'', PStr ''0xaa''), (''value'', PStr ''0''),
               (''input'', PStr ''0x60''), (''nonce'', PInt 0), (''r'', PStr ''0x1''),
               (''s'', PStr ''0x2''), (''v'', PInt 27), (''transactionIndex'', PInt 0),
               (''gas'', PStr ''21''), (''gasPrice'', PStr ''2'')]\<rparr>"

definition creation_addresses :: "node list" where
  "creation_addresses =
     [\<lparr>nid = 1, labels = {Address, EOA}, props = [(''address'', PStr ''0xee'')]\<rparr>,
      \<lparr>nid = 2, labels = {Address, EOA}, props = [(''address'', PStr ''0xaa'')]\<rparr>,
      \<lparr>nid = 3, labels = {Address, Contract},
        props = [(''address'', PStr ''0xcc''), (''is_erc20'', PBool False),
                 (''is_erc721'', PBool False), (''bytecode'', PStr ''0x6080'')]\<rparr>,
      \<lparr>nid = 4, labels = {Address, EOA},
        props = [(''address'', PStr ''0x00000000000000000000000000000000000000bb'')]\<rparr>,
      \<lparr>nid = 5, labels = {Address, EOA},
        props = [(''address'', PStr ''0x00000000000000000000000000000000000000dd'')]\<rparr>]"

definition creation_block_node :: node where
  "creation_block_node =
     \<lparr>nid = 6, labels = {Block},
      props = [(''number'', PInt 7), (''hash'', PStr ''0x07''), (''timestamp'', PInt 100),
               (''size'', PInt 1), (''nonce'', PStr ''0x0''), (''difficulty'', PStr ''1''),
               (''totalDifficulty'', PStr ''1''), (''gasLimit'', PStr ''30''),
               (''gasUsed'', PStr ''3'')]\<rparr>"

definition creation_transfer_node :: node where
  "creation_transfer_node =
     \<lparr>nid = 9, labels = {TokenTransfer},
      props = [(''transaction_hash'', PStr ''0x01''), (''log_index'', PInt 0),
               (''token_address'', PStr ''0xcc''), (''value'', PStr ''42''),
               (''value_raw'',
                PStr ''0x000000000000000000000000000000000000000000000000000000000000002a'')]\<rparr>"

text \<open>The store after block 7 was synced into an empty store.\<close>

definition creation_store :: graph where
  "creation_store =
     \<lparr>nodes = creation_addresses @
        [creation_block_node, creation_tx_node, \<lparr>nid = 8, labels = {}, props = []\<rparr>,
         creation_transfer_node],
      edges = [\<lparr>src = 6, kind = BLOCK_REWARD, dst = 1, eprops = [(''value'', PStr ''56'')]\<rparr>,
               \<lparr>src = 2, kind = SEND, dst = 7, eprops = []\<rparr>,
               \<lparr>src = 7, kind = CALL_CONTRACT_CREATION, dst = 8, eprops = []\<rparr>,
               \<lparr>src = 4, kind = SEND_TOKEN, dst = 9, eprops = []\<rparr>,
               \<lparr>src = 9, kind = TOKEN_TO, dst = 5, eprops = []\<rparr>,
               \<lparr>src = 7, kind = CALL_TOKEN_TRANSFER, dst = 9, eprops = []\<rparr>,
               \<lparr>src = 6, kind = CONTAINS, dst = 7, eprops = []\<rparr>]\<rparr>"

text \<open>The same store with the token transfer of the transaction missing.\<close>

definition creation_store_no_transfer :: graph where
  "creation_store_no_transfer =
     \<lparr>nodes = creation_addresses @
        [creation_block_node, creation_tx_node, \<lparr>nid = 8, labels = {}, props = []\<rparr>],
      edges = [\<lparr>src = 6, kind = BLOCK_REWARD, dst = 1, eprops = [(''value'', PStr ''56'')]\<rparr>,
               \<lparr>src = 2, kind = SEND, dst = 7, eprops = []\<rparr>,
               \<lparr>src = 7, kind = CALL_CONTRACT_CREATION, dst = 8, eprops = []\<rparr>,
               \<lparr>src = 6, kind = CONTAINS, dst = 7, eprops = []\<rparr>]\<rparr>"

text \<open>The same store with the block missing: the transaction and its transfer are there.\<close>

definition creation_store_no_block :: graph where
  "creation_store_no_block =
     \<lparr>nodes = creation_addresses @
        [creation_tx_node, \<lparr>nid = 8, labels = {}, props = []\<rparr>, creation_transfer_node],
      edges = [\<lparr>src = 2, kind = SEND, dst = 7, eprops = []\<rparr>,
               \<lparr>src = 7, kind = CALL_CONTRACT_CREATION, dst = 8, eprops = []\<rparr>,
               \<lparr>src = 4, kind = SEND_TOKEN, dst = 9, eprops = []\<rparr>,
               \<lparr>src = 9, kind = TOKEN_TO, dst = 5, eprops = []\<rparr>,
               \<lparr>src = 7, kind = CALL_TOKEN_TRANSFER, dst = 9, eprops = []\<rparr>]\<rparr>"

text \<open>Block 8 holds one plain transaction from \<open>0xaa\<close> to \<open>0xbb\<close> with no log.\<close>

definition plain_tx :: transaction where
  "plain_tx =
     \<lparr>tx_hash = Str ''0x02'', tx_from = ''0xaa'', tx_to = Some ''0xbb'', tx_value = 9,
      tx_input = ''0x'', tx_nonce = 1, tx_r = Str ''0x1'', tx_s = Str ''0x2'', tx_v = 27,
      tx_transactionIndex = 0, tx_gas = 21, tx_gasPrice = 2\<rparr>"

definition plain_block :: block where
  "plain_block =
     \<lparr>b_number = 8, b_hash = HexBytes [8], b_timestamp = 101, b_size = 1, b_nonce = Str ''0x0'',
      b_difficulty = 1, b_totalDifficulty = 2, b_gasLimit = 30, b_gasUsed = 1, b_miner = ''0xee'',
      b_uncles = [], b_transactions = [plain_tx]\<rparr>"

definition plain_env :: env where
  "plain_env = creation_env
     \<lparr>get_block := (\<lambda>n. if n = 8 then Some plain_block else None),
      get_transaction_receipt := (\<lambda>h. if h = ''0x02''
         then Some \<lparr>r_contractAddress = [], r_logs = [], r_gasUsed = 1\<rparr> else None)\<rparr>"

definition plain_block_props :: "(string \<times> pval) list" where
  "plain_block_props =
     [(''number'', PInt 8), (''hash'', PStr ''0x08''), (''timestamp'', PInt 101),
      (''size'', PInt 1), (''nonce'', PStr ''0x0''), (''difficulty'', PStr ''1''),
      (''totalDifficulty'', PStr ''2''), (''gasLimit'', PStr ''30''), (''gasUsed'', PStr ''1'')]"

definition plain_tx_props :: "(string \<times> pval) list" where
  "plain_tx_props =
     [(''hash'', PStr ''0x02''), (''from'', PStr ''0xaa''), (''to'', PStr ''0xbb''),
      (''value'', PStr ''9''), (''input'', PStr ''0x''), (''nonce'', PInt 1),
      (''r'', PStr ''0x1''), (''s'', PStr ''0x2''), (''v'', PInt 27),
      (''transactionIndex'', PInt 0), (''gas'', PStr ''21''), (''gasPrice'', PStr ''2'')]"

text \<open>A store that has the header of block 8 and nothing of its transaction.\<close>

definition header_store :: graph where
  "header_store =
     \<lparr>nodes = [\<lparr>nid = 1, labels = {Address, EOA}, props = [(''address'', PStr ''0xee'')]\<rparr>,
               \<lparr>nid = 2, labels = {Block}, props = plain_block_props\<rparr>],
      edges = [\<lparr>src = 2, kind = BLOCK_REWARD, dst = 1, eprops = [(''value'', PStr ''52'')]\<rparr>]\<rparr>"

text \<open>That store after the checker has visited height 8.\<close>

definition repaired_store :: graph where
  "repaired_store =
     \<lparr>nodes = [\<lparr>nid = 1, labels = {Address, EOA}, props = [(''address'', PStr ''0xee'')]\<rparr>,
               \<lparr>nid = 2, labels = {Block}, props = plain_block_props\<rparr>,
               \<lparr>nid = 3, labels = {Address, EOA}, props = [(''address'', PStr ''0xaa'')]\<rparr>,
               \<lparr>nid = 4, labels = {Address, EOA}, props = [(''address'', PStr ''0xbb'')]\<rparr>,
               \<lparr>nid = 5, labels = {Transaction}, props = plain_tx_props\<rparr>],
      edges = [\<lparr>src = 2, kind = BLOCK_REWARD, dst = 1, eprops = [(''value'', PStr ''52'')]\<rparr>,
               \<lparr>src = 3, kind = SEND, dst = 5, eprops = []\<rparr>,
               \<lparr>src = 5, kind = TO, dst = 4, eprops = []\<rparr>,
               \<lparr>src = 2, kind = CONTAINS, dst = 5, eprops = []\<rparr>,
               \<lparr>src = 2, kind = CONTAINS, dst = 5, eprops = []\<rparr>]\<rparr>"

text \<open>A store that has the transaction of block 8 and not the block.\<close>

definition orphan_tx_store :: graph where
  "orphan_tx_store =
     \<lparr>nodes = [\<lparr>nid = 1, labels = {Address, EOA}, props = [(''address'', PStr ''0xaa'')]\<rparr>,
               \<lparr>nid = 2, labels = {Address, EOA}, props = [(''address'', PStr ''0xbb'')]\<rparr>,
               \<lparr>nid = 3, labels = {Transaction}, props = plain_tx_props\<rparr>],
      edges = [\<lparr>src = 1, kind = SEND, dst = 3, eprops = []\<rparr>,
               \<lparr>src = 3, kind = TO, dst = 2, eprops = []\<rparr>]\<rparr>"

text \<open>
  A log whose topics arrive as byte buffers; the first topic is the single byte 0, and
  the second and third hold \<open>0x..bb\<close> and \<open>0x..dd\<close>.
\<close>

definition hexbytes_log :: log_entry where
  "hexbytes_log =
     \<lparr>l_topics = Some [HexBytes [0], HexBytes (replicate 31 0 @ [187]),
                       HexBytes (replicate 31 0 @ [221])],
      l_data = sample_word ''2a'', l_address = ''0xCC'', l_transactionHash = HexBytes [1],
      l_logIndex = 0, l_blockNumber = 7\<rparr>"

text \<open>
  The reward of C2, in the words of the specification: the constant subsidy, plus the
  uncle reward of every uncle of the block, plus the fee of every transaction. Beside
  it, the reward that \<open>enhance_block\<close> computes.
\<close>

definition fees :: "env \<Rightarrow> transaction list \<Rightarrow> int" where
  "fees E txs =
     sum_list (map (\<lambda>transaction.
        case get_transaction_receipt E (get_hash transaction) of
          None \<Rightarrow> 0
        | Some rcpt \<Rightarrow> r_gasUsed rcpt * tx_gasPrice transaction) txs)"

definition uncle_rewards :: "env \<Rightarrow> int \<Rightarrow> uncle list \<Rightarrow> int" where
  "uncle_rewards E number us =
     sum_list (map (\<lambda>u. get_uncle_reward E number (hex_to_int E (u_number u))) us)"

definition computed_reward :: "env \<Rightarrow> block \<Rightarrow> error + int" where
  "computed_reward E block = map_sum id reward (enhance_block E block)"

definition reward_as_claimed :: "env \<Rightarrow> block \<Rightarrow> error + int" where
  "reward_as_claimed E block =
     bind (fetch_uncles E (b_number block) [0 ..< length (b_uncles block)]) (\<lambda>us.
       Inr (get_const_reward E (b_number block) + uncle_rewards E (b_number block) us
            + fees E (b_transactions block)))"

text \<open>Block 9 has no transaction and one uncle, mined at height 8.\<close>

definition uncle_block :: block where
  "uncle_block = creation_block\<lparr>b_number := 9, b_uncles := [HexBytes [5]], b_transactions := []\<rparr>"

definition uncle_env :: env where
  "uncle_env = creation_env
     \<lparr>get_block := (\<lambda>n. if n = 9 then Some uncle_block else None),
      get_uncle_by_block := (\<lambda>n i. if n = 9 \<and> i = 0
         then Some \<lparr>u_miner = ''0xdd'', u_number = ''0x8''\<rparr> else None)\<rparr>"

text \<open>
  What the edges of a kind carry under \<open>value\<close>, in the order of their creation, and what
  the query of \<open>parse_block_header\<close> passes as \<open>$reward\<close> for an uncle.
\<close>

definition edge_values :: "graph \<Rightarrow> rel \<Rightarrow> pval option list" where
  "edge_values g r = map (\<lambda>e. map_of (eprops e) ''value'') (edges_of_kind g r)"

definition uncle_value :: "env \<Rightarrow> int \<Rightarrow> uncle \<Rightarrow> pval option" where
  "uncle_value E number u =
     Some (PStr (str_int (get_uncle_reward E number (hex_to_int E (u_number u)))))"

text \<open>
  Block 9 again, now with the plain transaction, whose receipt reports one unit of gas;
  and a store that knows the miners of the block and of its uncle.
\<close>

definition uncle_fee_block :: block where
  "uncle_fee_block = uncle_block\<lparr>b_transactions := [plain_tx]\<rparr>"

definition uncle_fee_env :: env where
  "uncle_fee_env = uncle_env
     \<lparr>get_block := (\<lambda>n. if n = 9 then Some uncle_fee_block else None),
      get_transaction_receipt := (\<lambda>h. if h = ''0x02''
         then Some \<lparr>r_contractAddress = [], r_logs = [], r_gasUsed = 1\<rparr> else None)\<rparr>"

definition two_miner_store :: graph where
  "two_miner_store =
     \<lparr>nodes = [\<lparr>nid = 1, labels = {Address, EOA}, props = [(''address'', PStr ''0xee'')]\<rparr>,
               \<lparr>nid = 2, labels = {Address, EOA}, props = [(''address'', PStr ''0xdd'')]\<rparr>],
      edges = []\<rparr>"






text \<open>
  The same scenario with addresses of 20 bytes: block 7, mined by \<open>0x..ee\<close>, holds one
  transaction from \<open>0x..aa\<close> without \<open>to\<close>; its receipt names the created contract
  \<open>0x..cc\<close> and carries one Transfer log of 42 units from \<open>0x..bb\<close> to \<open>0x..dd\<close>.
\<close>

definition sample_address :: "string \<Rightarrow> string" where
  "sample_address suffix = ''0x'' @ replicate (40 - length suffix) (CHR ''0'') @ suffix"

definition deploy_log :: log_entry where
  "deploy_log =
     \<lparr>l_topics = Some [Str TRANSFER_EVENT_TOPIC, Str (sample_word ''bb''), Str (sample_word ''dd'')],
      l_data = sample_word ''2a'', l_address = sample_address ''CC'', l_transactionHash = HexBytes [1],
      l_logIndex = 0, l_blockNumber = 7\<rparr>"

definition deploy_tx :: transaction where
  "deploy_tx = creation_tx\<lparr>tx_from := sample_address ''aa''\<rparr>"

definition deploy_block :: block where
  "deploy_block = creation_block\<lparr>b_miner := sample_address ''ee'', b_transactions := [deploy_tx]\<rparr>"

definition deploy_env :: env where
  "deploy_env = creation_env
     \<lparr>get_block := (\<lambda>n. if n = 7 then Some deploy_block else None),
      get_transaction_receipt := (\<lambda>h. if h = ''0x01''
         then Some \<lparr>r_contractAddress = sample_address ''cc'', r_logs = [deploy_log], r_gasUsed = 3\<rparr>
         else None)\<rparr>"

text \<open>The store after that block was synced into an empty store.\<close>

definition deploy_store :: graph where
  "deploy_store =
     \<lparr>nodes =
        [\<lparr>nid = 1, labels = {Address, EOA}, props = [(''address'', PStr (sample_address ''ee''))]\<rparr>,
         \<lparr>nid = 2, labels = {Address, EOA}, props = [(''address'', PStr (sample_address ''aa''))]\<rparr>,
         \<lparr>nid = 3, labels = {Address, Contract},
           props = [(''address'', PStr (sample_address ''cc'')), (''is_erc20'', PBool False),
                    (''is_erc721'', PBool False), (''bytecode'', PStr ''0x6080'')]\<rparr>,
         \<lparr>nid = 4, labels = {Address, EOA}, props = [(''address'', PStr (sample_address ''bb''))]\<rparr>,
         \<lparr>nid = 5, labels = {Address, EOA}, props = [(''address'', PStr (sample_address ''dd''))]\<rparr>,
         creation_block_node,
         \<lparr>nid = 7, labels = {Transaction},
           props = [(''hash'', PStr ''0x01''), (''from'', PStr (sample_address ''aa'')),
                    (''value'', PStr ''0''), (''input'', PStr ''0x60''), (''nonce'', PInt 0),
                    (''r'', PStr ''0x1''), (''s'', PStr ''0x2''), (''v'', PInt 27),
                    (''transactionIndex'', PInt 0), (''gas'', PStr ''21''),
                    (''gasPrice'', PStr ''2'')]\<rparr>,
         \<lparr>nid = 8, labels = {}, props = []\<rparr>,
         \<lparr>nid = 9, labels = {TokenTransfer},
           props = [(''transaction_hash'', PStr ''0x01''), (''log_index'', PInt 0),
                    (''token_address'', PStr (sample_address ''cc'')), (''value'', PStr ''42''),
                    (''value_raw'', PStr (sample_word ''2a''))]\<rparr>],
      edges = [\<lparr>src = 6, kind = BLOCK_REWARD, dst = 1, eprops = [(''value'', PStr ''56'')]\<rparr>,
               \<lparr>src = 2, kind = SEND, dst = 7, eprops = []\<rparr>,
               \<lparr>src = 7, kind = CALL_CONTRACT_CREATION, dst = 8, eprops = []\<rparr>,
               \<lparr>src = 4, kind = SEND_TOKEN, dst = 9, eprops = []\<rparr>,
               \<lparr>src = 9, kind = TOKEN_TO, dst = 5, eprops = []\<rparr>,
               \<lparr>src = 7, kind = CALL_TOKEN_TRANSFER, dst = 9, eprops = []\<rparr>,
               \<lparr>src = 6, kind = CONTAINS, dst = 7, eprops = []\<rparr>]\<rparr>"

text \<open>
  A store with the address \<open>0x..aa\<close>, and that store with a node for \<open>0x..cc\<close> under
  the labels given.
\<close>

definition one_address_store :: graph where
  "one_address_store =
     \<lparr>nodes = [\<lparr>nid = 1, labels = {Address, EOA}, props = [(''address'', PStr (sample_address ''aa''))]\<rparr>],
      edges = []\<rparr>"

definition contract_node :: "label set \<Rightarrow> node" where
  "contract_node ls =
     \<lparr>nid = 2, labels = ls,
      props = [(''address'', PStr (sample_address ''cc'')), (''is_erc20'', PBool False),
               (''is_erc721'', PBool False), (''bytecode'', PStr ''0x6080'')]\<rparr>"

definition contract_store :: "label set \<Rightarrow> graph" where
  "contract_store ls = \<lparr>nodes = nodes one_address_store @ [contract_node ls], edges = []\<rparr>"

section \<open>Results of the queries\<close>

lemma bind_Inr: "bind r f = Inr y \<Longrightarrow> \<exists>x. r = Inr x \<and> f x = Inr y"
  by (cases r) (simp_all add: bind_def)

lemma assert_one_Inr: "assert_one rs g = Inr g' \<Longrightarrow> g' = g \<and> (\<exists>r rest. rs = (1 # r) # rest)"
  by (auto simp: assert_one_def split: list.splits if_splits)

lemma counted_one: "counted xs = (1 # r) # rest \<Longrightarrow> length xs = 1"
  by (simp add: counted_def)

lemma checked_links_Inr:
  "checked (create_links g as r ps bs) = Inr g' \<Longrightarrow>
     g' = add_edges g (map (\<lambda>ab. mk_edge (nid (fst ab)) r (nid (snd ab)) ps) (List.product as bs))
     \<and> length as = 1 \<and> length bs = 1"
  by (auto simp: checked_def create_links_def dest!: assert_one_Inr counted_one)

lemma checked_paths_nodes:
  "checked (create_paths g as r1 ms r2 bs) = Inr g' \<Longrightarrow> nodes g' = nodes g"
  by (auto simp: checked_def create_paths_def add_edges_def dest!: assert_one_Inr)

lemma checked_links_nodes:
  "checked (create_links g as r ps bs) = Inr g' \<Longrightarrow> nodes g' = nodes g"
  by (auto simp: add_edges_def dest!: checked_links_Inr)

lemma checked_counted_Inr:
  "checked (create_counted g ls ps) = Inr g' \<Longrightarrow> create_node g ls ps = Inr g'"
  by (cases "create_node g ls ps") (auto simp: checked_def create_counted_def bind_def assert_one_def)

lemma create_node_Inr:
  "create_node g ls ps = Inr g' \<Longrightarrow>
     \<not> violates g ls (stored ps) \<and>
     g' = g\<lparr>nodes := nodes g @ [\<lparr>nid = fresh_id g, labels = ls, props = stored ps\<rparr>]\<rparr>"
  by (auto simp: create_node_def split: if_splits)

lemma param_not_null: "param v \<noteq> PNull"
  by (cases v) (simp_all add: param_def)

section \<open>GraphWriter: the token transfer node\<close>

lemma insert_TokenTransfer_nodes:
  assumes "insert_TokenTransfer transfer t = Inr t'"
  shows "nodes t' = nodes t @ [\<lparr>nid = fresh_id t, labels = {TokenTransfer},
            props = [(''transaction_hash'', PStr (transaction_hash transfer)),
                     (''log_index'', PInt (log_index transfer)),
                     (''token_address'', PStr (token_address transfer)),
                     (''value'', PStr (str_int (tt_value transfer))),
                     (''value_raw'', param (value_raw transfer))]\<rparr>]"
    and "transfer_nodes t (transaction_hash transfer) (log_index transfer) = []"
proof -
  let ?ps = "[(''transaction_hash'', PStr (transaction_hash transfer)),
              (''log_index'', PInt (log_index transfer)),
              (''token_address'', PStr (token_address transfer)),
              (''value'', PStr (str_int (tt_value transfer))),
              (''value_raw'', param (value_raw transfer))]"
  from assms obtain t1 t2 where
    c: "create_node t {TokenTransfer} ?ps = Inr t1" and
    p: "checked (create_paths t1 (address_nodes t1 (from_address transfer)) SEND_TOKEN
                    (transfer_nodes t1 (transaction_hash transfer) (log_index transfer)) TOKEN_TO
                    (address_nodes t1 (to_address transfer))) = Inr t2" and
    l: "checked (create_links t2 (tx_nodes t2 (transaction_hash transfer)) CALL_TOKEN_TRANSFER []
                    (transfer_nodes t2 (transaction_hash transfer) (log_index transfer))) = Inr t'"
    unfolding insert_TokenTransfer_def
    by (auto dest!: bind_Inr checked_counted_Inr)
  have st: "stored ?ps = ?ps"
    by (simp add: stored_def param_not_null)
  from create_node_Inr [OF c] have
    nv: "\<not> violates t {TokenTransfer} ?ps" and
    t1: "nodes t1 = nodes t @ [\<lparr>nid = fresh_id t, labels = {TokenTransfer}, props = ?ps\<rparr>]"
    by (simp_all add: st)
  from t1 checked_paths_nodes [OF p] checked_links_nodes [OF l]
  show "nodes t' = nodes t @ [\<lparr>nid = fresh_id t, labels = {TokenTransfer}, props = ?ps\<rparr>]"
    by simp
  from nv show "transfer_nodes t (transaction_hash transfer) (log_index transfer) = []"
    by (simp add: violates_def node_key_broken_def transfer_nodes_def)
qed

text \<open>
  C9, as the code has it. A successful \<open>insert_TokenTransfer\<close> leaves exactly one
  \<open>TokenTransfer\<close> node under the key (transaction hash, log index), and its properties
  are these five: the transaction hash, the log index, the token contract address, the
  decoded value written as a decimal string, and the raw value. The block number of the
  decoded transfer is not among them.
\<close>

theorem insert_TokenTransfer_fields:
  assumes "insert_TokenTransfer transfer t = Inr t'"
  shows "map props (transfer_nodes t' (transaction_hash transfer) (log_index transfer)) =
           [[(''transaction_hash'', PStr (transaction_hash transfer)),
             (''log_index'', PInt (log_index transfer)),
             (''token_address'', PStr (token_address transfer)),
             (''value'', PStr (str_int (tt_value transfer))),
             (''value_raw'', param (value_raw transfer))]]"
  using insert_TokenTransfer_nodes [OF assms]
  by (simp add: transfer_nodes_def match_nodes_def matches_def has_prop_def param_not_null)

lemma sample_insert_TokenTransfer:
  "insert_TokenTransfer sample_transfer sample_store = Inr sample_store_transfer"
  by code_simp

theorem insert_TokenTransfer_fields_witness:
  "insert_TokenTransfer sample_transfer sample_store = Inr sample_store_transfer \<and>
   map props (transfer_nodes sample_store_transfer ''0x01'' 0) =
     [[(''transaction_hash'', PStr ''0x01''), (''log_index'', PInt 0),
       (''token_address'', PStr ''0xc0''), (''value'', PStr ''5''),
       (''value_raw'', PStr ''0x05'')]]"
  using insert_TokenTransfer_fields [OF sample_insert_TokenTransfer] sample_insert_TokenTransfer
  by (simp add: sample_transfer_def param_def str_int_def str_nat.simps hex_digit_def)

text \<open>
  C9, as the claim states it, fails: the transfer decoded for block 7 is persisted, and
  the node under its key has no property \<open>block_number\<close>.
\<close>

theorem insert_TokenTransfer_block_number_counterexample:
  "insert_TokenTransfer sample_transfer sample_store = Inr sample_store_transfer \<and>
   block_number sample_transfer = 7 \<and>
   prop_values ''block_number'' (transfer_nodes sample_store_transfer ''0x01'' 0) = [None]"
  by code_simp

section \<open>GraphWriter: the edges of a contract creation\<close>

lemma product_single: "length (List.product xs ys) = 1 \<Longrightarrow> List.product xs ys = [(hd xs, hd ys)]"
  by (cases xs; cases ys) (auto simp: length_product)

lemma creation_path_target:
  assumes "checked (create_paths_to_new t as SEND ms CALL_CONTRACT_CREATION) = Inr t'"
  shows "edges t' = edges t @
           [\<lparr>src = nid (hd as), kind = SEND, dst = nid (hd ms), eprops = []\<rparr>,
            \<lparr>src = nid (hd ms), kind = CALL_CONTRACT_CREATION, dst = fresh_id t, eprops = []\<rparr>]"
    and "nodes t' = nodes t @ [\<lparr>nid = fresh_id t, labels = {}, props = []\<rparr>]"
proof -
  from assms have "length (List.product ms as) = 1"
    and t': "t' = fold (path_to_new SEND CALL_CONTRACT_CREATION) (List.product ms as) t"
    by (auto simp: checked_def create_paths_to_new_def dest!: assert_one_Inr counted_one)
  then have p: "List.product ms as = [(hd ms, hd as)]"
    by (simp add: product_single)
  show "edges t' = edges t @
           [\<lparr>src = nid (hd as), kind = SEND, dst = nid (hd ms), eprops = []\<rparr>,
            \<lparr>src = nid (hd ms), kind = CALL_CONTRACT_CREATION, dst = fresh_id t, eprops = []\<rparr>]"
    unfolding t' p by (simp add: path_to_new_def add_edges_def mk_edge_def stored_def)
  show "nodes t' = nodes t @ [\<lparr>nid = fresh_id t, labels = {}, props = []\<rparr>]"
    unfolding t' p by (simp add: path_to_new_def add_edges_def)
qed

text \<open>
  C1, on the code. Block 7 is enriched, its addresses are ensured and it is persisted
  into an empty store. The enriched block records \<open>0x..cc\<close> as the contract created by
  transaction \<open>0x01\<close>, and the store has the Address node 3 for \<open>0x..cc\<close>. The one
  \<open>CALL_CONTRACT_CREATION\<close> edge of the store leaves the Transaction node 7 and ends at
  node 8, which has no label and no property; no such edge ends at node 3.
\<close>

theorem contract_creation_edge_target:
  "bind (enhance_block deploy_env deploy_block)
        (\<lambda>b. lookup (created_contracts b) ''0x01'') = Inr (sample_address ''cc'') \<and>
   sync_task deploy_env 7 empty_graph = Inr deploy_store \<and>
   map nid (address_nodes deploy_store (sample_address ''cc'')) = [3] \<and>
   edges_into deploy_store CALL_CONTRACT_CREATION 3 = [] \<and>
   edges_of_kind deploy_store CALL_CONTRACT_CREATION =
     [\<lparr>src = 7, kind = CALL_CONTRACT_CREATION, dst = 8, eprops = []\<rparr>] \<and>
   nodes_with_id deploy_store 8 = [\<lparr>nid = 8, labels = {}, props = []\<rparr>]"
  by code_simp


section \<open>SyncEngine: the checker\<close>

text \<open>
  C5, on the code. The store has the header of block 8 and lacks its transaction. The
  checker repairs the transaction: \<open>parse_block_tx\<close> writes the \<open>CONTAINS\<close> edge and
  \<open>insert_block_conatins_tx\<close> writes it again, so the store ends with two \<open>CONTAINS\<close>
  edges from the Block node 2 to the Transaction node 5.
\<close>

theorem check_task_duplicate_contains:
  "check_task plain_env 8 header_store = Inr repaired_store \<and>
   map nid (block_nodes repaired_store 8) = [2] \<and>
   map nid (tx_nodes repaired_store ''0x02'') = [5] \<and>
   edges_of_kind repaired_store CONTAINS =
     [\<lparr>src = 2, kind = CONTAINS, dst = 5, eprops = []\<rparr>,
      \<lparr>src = 2, kind = CONTAINS, dst = 5, eprops = []\<rparr>]"
  by code_simp

text \<open>
  C10, on the code. The store lacks the block and has its transaction. For block 8,
  whose transaction has no transfer, the test of \<open>no_contains\<close> meets the variable
  unassigned. For block 7, whose transaction has its transfer in the store, the lookup
  of that transfer raises \<open>KeyError\<close> before the test is reached.
\<close>

theorem check_task_missing_block_raises:
  "get_local_Block orphan_tx_store 8 = None \<and>
   truthy (get_local_Transaction orphan_tx_store ''0x02'') \<and>
   check_task plain_env 8 orphan_tx_store = Inl UnboundLocalError \<and>
   get_local_Block creation_store_no_block 7 = None \<and>
   truthy (get_local_Transaction creation_store_no_block ''0x01'') \<and>
   map nid (transfer_nodes creation_store_no_block ''0x01'' 0) = [9] \<and>
   check_task creation_env 7 creation_store_no_block = Inl KeyError"
  by code_simp

lemma check_existing_all_present:
  "list_all (\<lambda>transaction. truthy (get_local_Transaction g (get_hash transaction))) txs \<Longrightarrow>
     foldM (check_tx_existing block) txs g = Inr g"
  by (induction txs) (simp_all add: check_tx_existing_def bind_def)

text \<open>
  C3, on the code. The store has block 7 and its transaction and lacks the token
  transfer that the enriched block lists for it. The checker finds the block and the
  transaction and returns with the store as it was: the transfer is still missing.
\<close>

theorem check_task_existing_skips_transfers:
  "bind (enhance_block creation_env creation_block)
        (\<lambda>b. lookup (transfers b) ''0x01'') = Inr [creation_transfer] \<and>
   truthy (get_local_Block creation_store_no_transfer 7) \<and>
   truthy (get_local_Transaction creation_store_no_transfer ''0x01'') \<and>
   transfer_nodes creation_store_no_transfer ''0x01'' 0 = [] \<and>
   check_task creation_env 7 creation_store_no_transfer = Inr creation_store_no_transfer"
  by code_simp

section \<open>GraphWriter: which writes are asserted\<close>

text \<open>
  C6, on the code. The query that creates the Transaction node returns no row, and
  \<open>insert_Transaction\<close> succeeds all the same: nothing is counted and nothing is
  asserted. The sibling \<open>insert_block_conatins_tx\<close>, run where its query counts 0,
  fails its assertion.
\<close>

theorem insert_Transaction_not_asserted:
  "create_Transaction creation_tx empty_graph = Inr ([], \<lparr>nodes = [creation_tx_node\<lparr>nid := 1\<rparr>], edges = []\<rparr>) \<and>
   insert_Transaction creation_tx empty_graph = Inr \<lparr>nodes = [creation_tx_node\<lparr>nid := 1\<rparr>], edges = []\<rparr> \<and>
   insert_block_conatins_tx 7 ''0x01'' empty_graph = Inl AssertionError"
  by code_simp

section \<open>LogTransferDecoder: the first topic\<close>

lemma extract_transfer_str_topic:
  "l_topics receipt_log = Some (Str s # rest) \<Longrightarrow> s \<noteq> TRANSFER_EVENT_TOPIC \<Longrightarrow>
     extract_transfer_from_log receipt_log = None"
  by (simp add: extract_transfer_from_log_def)

lemma extract_transfer_any_bytes_topic:
  "l_topics receipt_log = Some (HexBytes bs # rest) \<Longrightarrow>
     extract_transfer_from_log receipt_log = parse_transfer (HexBytes bs # rest) receipt_log"
  by (simp add: extract_transfer_from_log_def)

text \<open>
  C4, on the code. The first topic of the log is the byte buffer \<open>0x00\<close>, which is not
  the Transfer signature, and the decoder returns a transfer.
\<close>

theorem extract_transfer_bytes_topic:
  "map unhex (take 1 (the (l_topics hexbytes_log))) = [''0x00''] \<and>
   extract_transfer_from_log hexbytes_log = Some creation_transfer"
  by code_simp

section \<open>BlockEnricher: the reward\<close>

lemma enhance_tx_reward:
  "enhance_tx E transaction b0 = Inr b \<Longrightarrow>
     reward b = reward b0 + fees E [transaction] \<and> raw b = raw b0 \<and> uncle_blocks b = uncle_blocks b0"
  by (auto simp: enhance_tx_def fees_def get_new_contract_address_def bind_def
           split: if_splits option.splits sum.splits)

lemma fees_Cons: "fees E (x # xs) = fees E [x] + fees E xs"
  by (simp add: fees_def)

lemma enhance_txs_reward:
  "foldM (enhance_tx E) txs b0 = Inr b \<Longrightarrow>
     reward b = reward b0 + fees E txs \<and> raw b = raw b0 \<and> uncle_blocks b = uncle_blocks b0"
proof (induction txs arbitrary: b0)
  case Nil
  then show ?case by (simp add: fees_def)
next
  case (Cons x xs)
  from Cons.prems obtain b1 where
    1: "enhance_tx E x b0 = Inr b1" and 2: "foldM (enhance_tx E) xs b1 = Inr b"
    by (auto dest: bind_Inr)
  from enhance_tx_reward [OF 1] Cons.IH [OF 2] show ?case
    by (simp add: fees_Cons [of E x xs])
qed

lemma enhance_tx_total:
  "get_transaction_receipt E (get_hash transaction) \<noteq> None \<Longrightarrow> \<exists>b. enhance_tx E transaction b0 = Inr b"
  by (auto simp: enhance_tx_def get_new_contract_address_def bind_def)

lemma enhance_txs_total:
  "list_all (\<lambda>transaction. get_transaction_receipt E (get_hash transaction) \<noteq> None) txs \<Longrightarrow>
     \<exists>b. foldM (enhance_tx E) txs b0 = Inr b"
proof (induction txs arbitrary: b0)
  case Nil
  then show ?case by simp
next
  case (Cons x xs)
  then obtain b1 where "enhance_tx E x b0 = Inr b1"
    using enhance_tx_total [of E x b0] by auto
  with Cons show ?case by (simp add: bind_def)
qed

lemma fetch_uncles_total:
  "list_all (\<lambda>i. get_uncle_by_block E number i \<noteq> None) idxs \<Longrightarrow>
     \<exists>us. fetch_uncles E number idxs = Inr us"
  by (induction idxs) (auto simp: bind_def)

lemma edge_values_add_edges:
  "edge_values (add_edges g es) r =
     edge_values g r @ map (\<lambda>e. map_of (eprops e) ''value'') (filter (\<lambda>e. kind e = r) es)"
  by (simp add: edge_values_def edges_of_kind_def add_edges_def)

lemma product_of_singletons: "length xs = 1 \<Longrightarrow> length ys = 1 \<Longrightarrow> List.product xs ys = [(hd xs, hd ys)]"
  by (cases xs; cases ys) auto

lemma checked_links_values:
  assumes "checked (create_links g as r [(''value'', PStr v)] bs) = Inr g'"
  shows "edge_values g' r' = edge_values g r' @ (if r = r' then [Some (PStr v)] else [])"
proof -
  from checked_links_Inr [OF assms] have
    g': "g' = add_edges g (map (\<lambda>ab. mk_edge (nid (fst ab)) r (nid (snd ab)) [(''value'', PStr v)])
                             (List.product as bs))"
    and "length as = 1" and "length bs = 1" by auto
  then have "List.product as bs = [(hd as, hd bs)]" by (simp add: product_of_singletons)
  with g' show ?thesis
    by (simp add: edge_values_add_edges mk_edge_def stored_def)
qed

lemma uncle_reward_edge_values:
  assumes "uncle_reward_edge E block u t = Inr t'"
  shows "edge_values t' r =
           edge_values t r @ (if r = UNCLE_REWARD then [uncle_value E (b_number (raw block)) u] else [])"
  using checked_links_values [OF assms [unfolded uncle_reward_edge_def], of r]
  by (auto simp: uncle_value_def)

lemma uncle_reward_edges_values:
  "foldM (uncle_reward_edge E block) us t = Inr t' \<Longrightarrow>
     edge_values t' r =
       edge_values t r @ (if r = UNCLE_REWARD then map (uncle_value E (b_number (raw block))) us else [])"
proof (induction us arbitrary: t)
  case Nil
  then show ?case by simp
next
  case (Cons u us)
  from Cons.prems obtain t1 where
    1: "uncle_reward_edge E block u t = Inr t1" and
    2: "foldM (uncle_reward_edge E block) us t1 = Inr t'"
    by (auto dest: bind_Inr)
  from uncle_reward_edge_values [OF 1, of r] Cons.IH [OF 2] show ?case by simp
qed

lemma create_node_edges: "create_node g ls ps = Inr g' \<Longrightarrow> edges g' = edges g"
  by (auto dest: create_node_Inr)

lemma parse_block_header_values:
  assumes "parse_block_header E block t = Inr t'"
  shows "edge_values t' BLOCK_REWARD =
           edge_values t BLOCK_REWARD @ [Some (PStr (str_int (reward block)))]"
    and "edge_values t' UNCLE_REWARD =
           edge_values t UNCLE_REWARD @ map (uncle_value E (b_number (raw block))) (uncle_blocks block)"
proof -
  from assms obtain t1 t2 where
    c: "edges t1 = edges t" and
    b: "checked (create_links t1 (block_nodes t1 (b_number (raw block))) BLOCK_REWARD
                    [(''value'', PStr (str_int (reward block)))]
                    (address_nodes t1 (b_miner (raw block)))) = Inr t2" and
    u: "foldM (uncle_reward_edge E block) (uncle_blocks block) t2 = Inr t'"
    unfolding parse_block_header_def
    by (auto dest!: bind_Inr checked_counted_Inr create_node_edges)
  from c have e: "edge_values t1 r = edge_values t r" for r
    by (simp add: edge_values_def edges_of_kind_def)
  from checked_links_values [OF b, of BLOCK_REWARD] uncle_reward_edges_values [OF u, of BLOCK_REWARD] e
  show "edge_values t' BLOCK_REWARD =
           edge_values t BLOCK_REWARD @ [Some (PStr (str_int (reward block)))]"
    by simp
  from checked_links_values [OF b, of UNCLE_REWARD] uncle_reward_edges_values [OF u, of UNCLE_REWARD] e
  show "edge_values t' UNCLE_REWARD =
           edge_values t UNCLE_REWARD @ map (uncle_value E (b_number (raw block))) (uncle_blocks block)"
    by simp
qed

text \<open>
  C2, as the code has it. When the chain client serves every uncle and every receipt,
  \<open>enhance_block\<close> returns a block whose reward is the constant subsidy for the block's
  number plus the sum over the transactions of gasUsed times gasPrice, and whose uncles
  are the headers the client served. The uncle rewards are not part of the reward:
  whenever \<open>parse_block_header\<close> writes that block, it adds one \<open>BLOCK_REWARD\<close> edge, which
  carries that reward as a decimal string, and one \<open>UNCLE_REWARD\<close> edge for every uncle,
  in their order, each carrying the reward of its uncle.
\<close>

theorem enhance_block_reward:
  assumes "list_all (\<lambda>i. get_uncle_by_block E (b_number block) i \<noteq> None) [0 ..< length (b_uncles block)]"
    and "list_all (\<lambda>transaction. get_transaction_receipt E (get_hash transaction) \<noteq> None)
           (b_transactions block)"
  shows "\<exists>b. enhance_block E block = Inr b \<and>
           reward b = get_const_reward E (b_number block) + fees E (b_transactions block) \<and>
           fetch_uncles E (b_number block) [0 ..< length (b_uncles block)] = Inr (uncle_blocks b) \<and>
           (\<forall>t t'. parse_block_header E b t = Inr t' \<longrightarrow>
              edge_values t' BLOCK_REWARD =
                edge_values t BLOCK_REWARD @ [Some (PStr (str_int (reward b)))] \<and>
              edge_values t' UNCLE_REWARD =
                edge_values t UNCLE_REWARD @ map (uncle_value E (b_number block)) (uncle_blocks b))"
proof -
  from fetch_uncles_total [OF assms(1)] obtain us where
    u: "fetch_uncles E (b_number block) [0 ..< length (b_uncles block)] = Inr us" ..
  from enhance_txs_total [OF assms(2)] obtain b where
    b: "foldM (enhance_tx E) (b_transactions block)
          \<lparr>raw = block, uncle_blocks = us, created_contracts = Map.empty,
           transfers = Map.empty, transaction_receipt = Map.empty,
           reward = get_const_reward E (b_number block)\<rparr> = Inr b" ..
  from enhance_txs_reward [OF b] have
    r: "reward b = get_const_reward E (b_number block) + fees E (b_transactions block)"
    and raw: "raw b = block" and ub: "uncle_blocks b = us" by simp_all
  from u b have e: "enhance_block E block = Inr b"
    by (simp add: enhance_block_def bind_def)
  from parse_block_header_values [of E b] raw have
    "\<forall>t t'. parse_block_header E b t = Inr t' \<longrightarrow>
       edge_values t' BLOCK_REWARD =
         edge_values t BLOCK_REWARD @ [Some (PStr (str_int (reward b)))] \<and>
       edge_values t' UNCLE_REWARD =
         edge_values t UNCLE_REWARD @ map (uncle_value E (b_number block)) (uncle_blocks b)"
    by simp
  with e r u ub show ?thesis by blast
qed

theorem enhance_block_reward_witness:
  "list_all (\<lambda>i. get_uncle_by_block uncle_fee_env (b_number uncle_fee_block) i \<noteq> None)
     [0 ..< length (b_uncles uncle_fee_block)] \<and>
   list_all (\<lambda>transaction. get_transaction_receipt uncle_fee_env (get_hash transaction) \<noteq> None)
     (b_transactions uncle_fee_block) \<and>
   computed_reward uncle_fee_env uncle_fee_block = Inr 52 \<and>
   map_sum id (\<lambda>g. (edge_values g BLOCK_REWARD, edge_values g UNCLE_REWARD))
     (bind (enhance_block uncle_fee_env uncle_fee_block)
           (\<lambda>b. parse_block_header uncle_fee_env b two_miner_store)) =
     Inr ([Some (PStr ''52'')], [Some (PStr ''43'')])"
proof -
  let ?E = uncle_fee_env and ?B = uncle_fee_block
  have 1: "list_all (\<lambda>i. get_uncle_by_block ?E (b_number ?B) i \<noteq> None) [0 ..< length (b_uncles ?B)]"
    by code_simp
  have 2: "list_all (\<lambda>transaction. get_transaction_receipt ?E (get_hash transaction) \<noteq> None)
             (b_transactions ?B)"
    by code_simp
  have f: "get_const_reward ?E (b_number ?B) + fees ?E (b_transactions ?B) = 52"
    by code_simp
  have us: "fetch_uncles ?E (b_number ?B) [0 ..< length (b_uncles ?B)] =
      Inr [\<lparr>u_miner = ''0xdd'', u_number = ''0x8''\<rparr>]"
    by code_simp
  have uv: "uncle_value ?E (b_number ?B) \<lparr>u_miner = ''0xdd'', u_number = ''0x8''\<rparr> = Some (PStr ''43'')"
    by code_simp
  have s52: "str_int 52 = ''52''"
    by code_simp
  have e0: "edge_values two_miner_store BLOCK_REWARD = [] \<and> edge_values two_miner_store UNCLE_REWARD = []"
    by code_simp
  have ok: "\<not> isl (bind (enhance_block ?E ?B) (\<lambda>b. parse_block_header ?E b two_miner_store))"
    by code_simp
  from enhance_block_reward [OF 1 2] obtain b where
    e: "enhance_block ?E ?B = Inr b" and
    r: "reward b = get_const_reward ?E (b_number ?B) + fees ?E (b_transactions ?B)" and
    u: "fetch_uncles ?E (b_number ?B) [0 ..< length (b_uncles ?B)] = Inr (uncle_blocks b)" and
    h: "\<And>t t'. parse_block_header ?E b t = Inr t' \<Longrightarrow>
          edge_values t' BLOCK_REWARD = edge_values t BLOCK_REWARD @ [Some (PStr (str_int (reward b)))] \<and>
          edge_values t' UNCLE_REWARD =
            edge_values t UNCLE_REWARD @ map (uncle_value ?E (b_number ?B)) (uncle_blocks b)"
    by blast
  from ok e obtain t' where p: "parse_block_header ?E b two_miner_store = Inr t'"
    by (cases "parse_block_header ?E b two_miner_store") (simp_all add: bind_def)
  from u us have ub: "uncle_blocks b = [\<lparr>u_miner = ''0xdd'', u_number = ''0x8''\<rparr>]" by simp
  from h [OF p] have "edge_values t' BLOCK_REWARD = [Some (PStr ''52'')]"
    and "edge_values t' UNCLE_REWARD = [Some (PStr ''43'')]"
    by (simp_all add: e0 r f s52 ub uv)
  with e p r f 1 2 show ?thesis
    by (simp add: computed_reward_def bind_def)
qed

text \<open>
  C2, as the claim states it, fails. Block 9 has one uncle, whose reward is 43, and no
  transaction: the sum of the claim is 93 and the computed reward is 50.
\<close>

theorem reward_uncle_counterexample:
  "computed_reward uncle_env uncle_block = Inr 50 \<and>
   reward_as_claimed uncle_env uncle_block = Inr 93"
  by code_simp

section \<open>SyncEngine: the local height\<close>















section \<open>AddressClassifier: idempotence\<close>

lemma matches_address:
  "matches [Address] [(''address'', PStr a)] n \<longleftrightarrow>
     Address \<in> labels n \<and> map_of (props n) ''address'' = Some (PStr a)"
  by (simp add: matches_def has_prop_def)

lemma matches_address_label:
  "matches [Address, l] [(''address'', PStr a)] n \<longleftrightarrow>
     l \<in> labels n \<and> matches [Address] [(''address'', PStr a)] n"
  by (auto simp: matches_def has_prop_def)

lemma try_get_Nil: "try_get l g a = [] \<longleftrightarrow> address_nodes g a = []"
proof (cases "match_nodes g [Address, l] [(''address'', PStr a)]")
  case Nil
  then show ?thesis
    by (cases "address_nodes g a") (simp_all add: try_get_def)
next
  case (Cons c cs)
  then show ?thesis
    by (cases "address_nodes g a") (simp_all add: try_get_def)
qed

lemma try_get_row:
  assumes "d \<in> set (try_get l g a)"
  shows "map_of d ''eoa'' = None"
    and "match_nodes g [Address, l] [(''address'', PStr a)] = [] \<Longrightarrow> map_of d ''c'' = Some None"
    and "match_nodes g [Address, l] [(''address'', PStr a)] \<noteq> [] \<Longrightarrow> \<exists>c. map_of d ''c'' = Some (Some c)"
proof -
  show "map_of d ''eoa'' = None"
    using assms
    by (cases "match_nodes g [Address, l] [(''address'', PStr a)]") (auto simp: try_get_def)
  show "match_nodes g [Address, l] [(''address'', PStr a)] = [] \<Longrightarrow> map_of d ''c'' = Some None"
    using assms by (auto simp: try_get_def)
  show "match_nodes g [Address, l] [(''address'', PStr a)] \<noteq> [] \<Longrightarrow> \<exists>c. map_of d ''c'' = Some (Some c)"
    using assms
    by (cases "match_nodes g [Address, l] [(''address'', PStr a)]") (auto simp: try_get_def)
qed

lemma map_of_filter_other:
  "k' \<noteq> k \<Longrightarrow> map_of (filter (\<lambda>p. fst p \<noteq> k') ps) k = map_of ps k"
  by (induction ps) auto

lemma map_of_replace_other:
  "fst kv \<noteq> k \<Longrightarrow> map_of (map (\<lambda>p. if fst p = fst kv then kv else p) ps) k = map_of ps k"
  by (induction ps) auto

lemma set_prop_other: "fst kv \<noteq> k \<Longrightarrow> map_of (set_prop ps kv) k = map_of ps k"
  by (auto simp: set_prop_def map_of_filter_other map_of_replace_other map_add_def
           split: option.splits)

lemma foldl_set_prop_other:
  "k \<notin> fst ` set kvs \<Longrightarrow> map_of (foldl set_prop ps kvs) k = map_of ps k"
proof (induction kvs arbitrary: ps)
  case Nil
  show ?case by simp
next
  case (Cons kv kvs)
  then have "fst kv \<noteq> k" and "k \<notin> fst ` set kvs" by auto
  with Cons.IH [of "set_prop ps kv"] show ?case
    by (simp add: set_prop_other)
qed

lemma set_on_matches:
  "''address'' \<notin> fst ` set kvs \<Longrightarrow>
     matches [Address] [(''address'', PStr a)] (set_on [Address] [(''address'', PStr a)] l kvs n)
       = matches [Address] [(''address'', PStr a)] n"
  by (auto simp: set_on_def matches_address foldl_set_prop_other)

lemma set_on_label:
  "matches ls ps (set_on ls ps l kvs n) \<Longrightarrow> l \<in> labels (set_on ls ps l kvs n)"
  by (auto simp: set_on_def split: if_splits)

lemma address_nodes_set_nodes:
  assumes "''address'' \<notin> fst ` set kvs"
  shows "address_nodes (set_nodes g [Address] [(''address'', PStr a)] l kvs) a =
           map (set_on [Address] [(''address'', PStr a)] l kvs) (address_nodes g a)"
  by (simp add: address_nodes_def match_nodes_def set_nodes_def filter_map comp_def
        set_on_matches [OF assms])

lemma labelled_set_nodes:
  assumes "''address'' \<notin> fst ` set kvs"
  shows "match_nodes (set_nodes g [Address] [(''address'', PStr a)] l kvs) [Address, l] [(''address'', PStr a)]
           = address_nodes (set_nodes g [Address] [(''address'', PStr a)] l kvs) a"
  unfolding address_nodes_def match_nodes_def set_nodes_def
  by (rule filter_cong) (auto simp: matches_address_label dest: set_on_label)

lemma set_nodes_noop:
  assumes "\<And>n. n \<in> set (nodes g) \<Longrightarrow> matches ls ps n \<Longrightarrow> l \<in> labels n"
  shows "set_nodes g ls ps l [] = g"
proof -
  have "map (set_on ls ps l []) (nodes g) = nodes g"
    using assms by (intro map_idI) (auto simp: set_on_def insert_absorb)
  then show ?thesis by (simp add: set_nodes_def)
qed

lemma set_nodes_twice: "set_nodes (set_nodes g ls ps l []) ls ps l [] = set_nodes g ls ps l []"
  by (rule set_nodes_noop) (auto simp: set_nodes_def dest: set_on_label)

lemma address_nodes_empty: "address_nodes g a = [] \<Longrightarrow> n \<in> set (nodes g) \<Longrightarrow>
    \<not> matches [Address] [(''address'', PStr a)] n"
  by (auto simp: address_nodes_def match_nodes_def filter_empty_conv)

lemma create_address_node:
  assumes "address_nodes g a = []" and "Address \<in> ls" and "TokenTransfer \<notin> ls"
    and "map_of ps ''hash'' = None" and "map_of ps ''number'' = None"
    and "map_of ps ''address'' = Some (PStr a)" and "stored ps = ps"
  shows "create_node g ls ps = Inr (g\<lparr>nodes := nodes g @ [\<lparr>nid = fresh_id g, labels = ls, props = ps\<rparr>]\<rparr>)"
  using assms
  by (simp add: create_node_def violates_def clash_def unique_keys_def node_key_broken_def
        address_nodes_def)

lemma address_nodes_append:
  "address_nodes (g\<lparr>nodes := nodes g @ [n]\<rparr>) a =
     address_nodes g a @ (if matches [Address] [(''address'', PStr a)] n then [n] else [])"
  by (simp add: address_nodes_def match_nodes_def)

lemma labelled_append:
  "match_nodes (g\<lparr>nodes := nodes g @ [n]\<rparr>) [Address, l] [(''address'', PStr a)] =
     match_nodes g [Address, l] [(''address'', PStr a)] @
       (if matches [Address, l] [(''address'', PStr a)] n then [n] else [])"
  by (simp add: match_nodes_def)

lemma labelled_subset:
  "address_nodes g a = [] \<Longrightarrow> match_nodes g [Address, l] [(''address'', PStr a)] = []"
  by (auto simp: address_nodes_def match_nodes_def filter_empty_conv matches_address_label)

lemma EOA_absent:
  assumes "address_nodes g (unhex x) = []"
  shows "insert_Address_EOA x g =
     Inr (g\<lparr>nodes := nodes g @ [\<lparr>nid = fresh_id g, labels = {Address, EOA},
                                   props = [(''address'', PStr (unhex x))]\<rparr>]\<rparr>)"
proof -
  have "try_get EOA g (unhex x) = []" using assms by (simp add: try_get_Nil)
  moreover have "match_nodes g [Address, EOA] [(''address'', PStr (unhex x))] = []"
    using assms by (rule labelled_subset)
  moreover have "create_node g {Address, EOA} [(''address'', PStr (unhex x))] =
      Inr (g\<lparr>nodes := nodes g @ [\<lparr>nid = fresh_id g, labels = {Address, EOA},
                                   props = [(''address'', PStr (unhex x))]\<rparr>]\<rparr>)"
    using assms by (intro create_address_node) (simp_all add: stored_def)
  ultimately show ?thesis
    by (simp add: insert_Address_EOA_def merge_node_def or_exit_def)
qed

lemma EOA_present:
  assumes "address_nodes g (unhex x) \<noteq> []"
  shows "insert_Address_EOA x g = Inr (set_nodes g [Address] [(''address'', PStr (unhex x))] EOA [])"
proof -
  from assms obtain d rest where d: "try_get EOA g (unhex x) = d # rest"
    by (cases "try_get EOA g (unhex x)") (simp_all add: try_get_Nil)
  then have "d \<in> set (try_get EOA g (unhex x))" by simp
  then have "dict_get d ''eoa'' = None"
    by (simp add: dict_get_def try_get_row(1))
  with d show ?thesis by (simp add: insert_Address_EOA_def)
qed

lemma EOA_idempotent:
  "\<exists>g1. insert_Address_EOA x g = Inr g1 \<and> insert_Address_EOA x g1 = Inr g1 \<and>
        length (address_nodes g1 (unhex x)) = max 1 (length (address_nodes g (unhex x)))"
proof (cases "address_nodes g (unhex x) = []")
  case True
  let ?n = "\<lparr>nid = fresh_id g, labels = {Address, EOA}, props = [(''address'', PStr (unhex x))]\<rparr>"
  let ?g1 = "g\<lparr>nodes := nodes g @ [?n]\<rparr>"
  have m: "matches [Address] [(''address'', PStr (unhex x))] ?n" by (simp add: matches_address)
  have a1: "address_nodes ?g1 (unhex x) = [?n]"
    using True m by (simp add: address_nodes_append)
  have "set_nodes ?g1 [Address] [(''address'', PStr (unhex x))] EOA [] = ?g1"
    using True by (intro set_nodes_noop) (auto dest: address_nodes_empty)
  with EOA_present [of ?g1 x] a1 have "insert_Address_EOA x ?g1 = Inr ?g1" by simp
  with EOA_absent [OF True] a1 True show ?thesis by simp
next
  case False
  let ?g1 = "set_nodes g [Address] [(''address'', PStr (unhex x))] EOA []"
  have a1: "address_nodes ?g1 (unhex x) =
      map (set_on [Address] [(''address'', PStr (unhex x))] EOA []) (address_nodes g (unhex x))"
    by (rule address_nodes_set_nodes) simp
  with False have "address_nodes ?g1 (unhex x) \<noteq> []" by simp
  from EOA_present [OF this] have "insert_Address_EOA x ?g1 = Inr ?g1"
    by (simp add: set_nodes_twice)
  moreover have "length (address_nodes ?g1 (unhex x)) = max 1 (length (address_nodes g (unhex x)))"
    using False a1 by (cases "address_nodes g (unhex x)") simp_all
  ultimately show ?thesis using EOA_present [OF False] by simp
qed

lemma unhex_Str: "unhex (Str s) = s"
  by (simp add: unhex_def)

lemma insert_Address_Unknown_calls_EOA:
  "insert_Address_Unknown x g = or_exit (insert_Address_EOA (Str (unhex x)) g)"
  by (simp add: insert_Address_Unknown_def late_values_def)

lemma Unknown_idempotent:
  "\<exists>g1. insert_Address_Unknown x g = Inr g1 \<and> insert_Address_Unknown x g1 = Inr g1 \<and>
        length (address_nodes g1 (unhex x)) = max 1 (length (address_nodes g (unhex x)))"
  using EOA_idempotent [of "Str (unhex x)" g]
  by (auto simp: insert_Address_Unknown_calls_EOA or_exit_def unhex_Str)

lemma Contract_labelled:
  assumes "match_nodes g [Address, Contract] [(''address'', PStr (unhex x))] \<noteq> []"
    and "address_nodes g (unhex x) \<noteq> []"
  shows "insert_Address_Contract E x g = Inr g"
proof -
  from assms(2) obtain d rest where d: "try_get Contract g (unhex x) = d # rest"
    by (cases "try_get Contract g (unhex x)") (simp_all add: try_get_Nil)
  then have "d \<in> set (try_get Contract g (unhex x))" by simp
  from try_get_row(3) [OF this assms(1)] obtain c where "map_of d ''c'' = Some (Some c)" ..
  with d show ?thesis by (simp add: insert_Address_Contract_def)
qed

lemma Contract_idempotent:
  assumes "get_bytecode E (unhex x) = Inr code"
  shows "\<exists>g1. insert_Address_Contract E x g = Inr g1 \<and> insert_Address_Contract E x g1 = Inr g1 \<and>
        length (address_nodes g1 (unhex x)) = max 1 (length (address_nodes g (unhex x)))"
proof (cases "address_nodes g (unhex x) = []")
  case True
  let ?ps = "[(''address'', PStr (unhex x)), (''is_erc20'', PBool (is_ERC20 E code)),
              (''is_erc721'', PBool (is_ERC721 E code)), (''bytecode'', PStr code)]"
  let ?n = "\<lparr>nid = fresh_id g, labels = {Address, Contract}, props = ?ps\<rparr>"
  let ?g1 = "g\<lparr>nodes := nodes g @ [?n]\<rparr>"
  have t: "try_get Contract g (unhex x) = []" using True by (simp add: try_get_Nil)
  have nom: "match_nodes g [Address, Contract] ?ps = []"
    using True by (auto simp: address_nodes_def match_nodes_def filter_empty_conv matches_def)
  have c: "create_node g (set [Address, Contract]) ?ps = Inr ?g1"
    using True by (simp add: create_address_node stored_def)
  have 1: "insert_Address_Contract E x g = Inr ?g1"
    using t nom c assms
    by (simp add: insert_Address_Contract_def bind_def merge_node_def or_exit_def)
  have m: "matches [Address, Contract] [(''address'', PStr (unhex x))] ?n"
    by (simp add: matches_def has_prop_def)
  then have m': "matches [Address] [(''address'', PStr (unhex x))] ?n"
    by (simp add: matches_address_label)
  have a1: "address_nodes ?g1 (unhex x) = [?n]"
    using True m' by (simp add: address_nodes_append)
  have "match_nodes ?g1 [Address, Contract] [(''address'', PStr (unhex x))] \<noteq> []"
    using m by (simp add: labelled_append)
  from Contract_labelled [OF this] a1 have "insert_Address_Contract E x ?g1 = Inr ?g1" by simp
  with 1 a1 True show ?thesis by simp
next
  case False
  show ?thesis
  proof (cases "match_nodes g [Address, Contract] [(''address'', PStr (unhex x))] = []")
    case labelled: False
    from Contract_labelled [OF labelled False] False show ?thesis
      by (cases "address_nodes g (unhex x)") simp_all
  next
    case bare: True
    let ?kvs = "[(''is_erc20'', PBool (is_ERC20 E code)),
                 (''is_erc721'', PBool (is_ERC721 E code))]"
    let ?g1 = "set_nodes g [Address] [(''address'', PStr (unhex x))] Contract ?kvs"
    from False obtain d rest where d: "try_get Contract g (unhex x) = d # rest"
      by (cases "try_get Contract g (unhex x)") (simp_all add: try_get_Nil)
    then have "d \<in> set (try_get Contract g (unhex x))" by simp
    from try_get_row(2) [OF this bare] have "map_of d ''c'' = Some None" .
    with d assms have 1: "insert_Address_Contract E x g = Inr ?g1"
      by (simp add: insert_Address_Contract_def bind_def or_exit_def)
    have a1: "address_nodes ?g1 (unhex x) =
        map (set_on [Address] [(''address'', PStr (unhex x))] Contract ?kvs) (address_nodes g (unhex x))"
      by (rule address_nodes_set_nodes) simp
    with False have ne: "address_nodes ?g1 (unhex x) \<noteq> []" by simp
    have "match_nodes ?g1 [Address, Contract] [(''address'', PStr (unhex x))] = address_nodes ?g1 (unhex x)"
      by (rule labelled_set_nodes) simp
    with ne have "match_nodes ?g1 [Address, Contract] [(''address'', PStr (unhex x))] \<noteq> []" by simp
    from Contract_labelled [OF this ne] have 2: "insert_Address_Contract E x ?g1 = Inr ?g1" .
    have "length (address_nodes ?g1 (unhex x)) = max 1 (length (address_nodes g (unhex x)))"
      using False a1 by (cases "address_nodes g (unhex x)") simp_all
    with 1 2 show ?thesis by simp
  qed
qed


lemma Contract_exit:
  assumes "get_bytecode E (unhex x) = Inl e"
    and "match_nodes g [Address, Contract] [(''address'', PStr (unhex x))] = []"
  shows "insert_Address_Contract E x g = Inl ProcessExit"
proof (cases "try_get Contract g (unhex x)")
  case Nil
  with assms(1) show ?thesis
    by (simp add: insert_Address_Contract_def bind_def or_exit_def)
next
  case (Cons d rest)
  then have "d \<in> set (try_get Contract g (unhex x))" by simp
  from try_get_row(2) [OF this assms(2)] have "map_of d ''c'' = Some None" .
  with Cons assms(1) show ?thesis
    by (simp add: insert_Address_Contract_def bind_def or_exit_def)
qed

lemma Contract_returns:
  assumes "insert_Address_Contract E x g = Inr g1"
  shows "insert_Address_Contract E x g1 = Inr g1 \<and>
         length (address_nodes g1 (unhex x)) = max 1 (length (address_nodes g (unhex x)))"
proof (cases "get_bytecode E (unhex x)")
  case (Inr code)
  from Contract_idempotent [OF this, of g] assms show ?thesis by auto
next
  case (Inl e)
  show ?thesis
  proof (cases "match_nodes g [Address, Contract] [(''address'', PStr (unhex x))] = []")
    case True
    from Contract_exit [OF Inl True] assms show ?thesis by simp
  next
    case False
    then have ne: "address_nodes g (unhex x) \<noteq> []"
      using labelled_subset [of g "unhex x" Contract] by auto
    from Contract_labelled [OF False ne] assms have "g1 = g" by simp
    with Contract_labelled [OF False ne] ne show ?thesis
      by (cases "address_nodes g (unhex x)") simp_all
  qed
qed

text \<open>
  C8. For every address and every store, \<open>insert_Address_EOA\<close> and
  \<open>insert_Address_Unknown\<close> return a store on which the same call returns that same
  store again, and so does every call of \<open>insert_Address_Contract\<close> that returns; it
  returns whenever \<open>get_bytecode\<close> does (where it needs the bytecode and does not get
  it, the process exits). Each call leaves as many Address nodes under the address as
  there were, or one where there was none. The labels of a node are a set, so a label
  cannot be held twice.
\<close>

theorem address_ensure_idempotent:
  "(\<exists>g1. insert_Address_EOA x g = Inr g1 \<and> insert_Address_EOA x g1 = Inr g1 \<and>
      length (address_nodes g1 (unhex x)) = max 1 (length (address_nodes g (unhex x)))) \<and>
   (\<exists>g1. insert_Address_Unknown x g = Inr g1 \<and> insert_Address_Unknown x g1 = Inr g1 \<and>
      length (address_nodes g1 (unhex x)) = max 1 (length (address_nodes g (unhex x)))) \<and>
   (insert_Address_Contract E x g = Inr g2 \<longrightarrow>
      insert_Address_Contract E x g2 = Inr g2 \<and>
      length (address_nodes g2 (unhex x)) = max 1 (length (address_nodes g (unhex x)))) \<and>
   (get_bytecode E (unhex x) = Inr code \<longrightarrow> (\<exists>g1. insert_Address_Contract E x g = Inr g1))"
proof -
  have "get_bytecode E (unhex x) = Inr code \<longrightarrow> (\<exists>g1. insert_Address_Contract E x g = Inr g1)"
  proof
    assume "get_bytecode E (unhex x) = Inr code"
    from Contract_idempotent [OF this, of g] show "\<exists>g1. insert_Address_Contract E x g = Inr g1"
      by blast
  qed
  with EOA_idempotent [of x g] Unknown_idempotent [of x g] Contract_returns [of E x g g2]
  show ?thesis by blast
qed


theorem address_ensure_idempotent_witness:
  "get_bytecode creation_env (sample_address ''cc'') = Inr ''0x6080'' \<and>
   insert_Address_Contract creation_env (Str (sample_address ''cc'')) one_address_store =
     Inr (contract_store {Address, Contract}) \<and>
   insert_Address_Contract creation_env (Str (sample_address ''cc'')) (contract_store {Address, Contract}) =
     Inr (contract_store {Address, Contract}) \<and>
   length (address_nodes (contract_store {Address, Contract}) (sample_address ''cc'')) = 1 \<and>
   insert_Address_Unknown (Str (sample_address ''cc'')) (contract_store {Address, Contract}) =
     Inr (contract_store {Address, Contract, EOA}) \<and>
   insert_Address_Unknown (Str (sample_address ''cc'')) (contract_store {Address, Contract, EOA}) =
     Inr (contract_store {Address, Contract, EOA}) \<and>
   insert_Address_EOA (Str (sample_address ''cc'')) (contract_store {Address, Contract, EOA}) =
     Inr (contract_store {Address, Contract, EOA})"
proof -
  let ?x = "Str (sample_address ''cc'')"
  have code: "get_bytecode creation_env (unhex ?x) = Inr ''0x6080''"
    by code_simp
  have c: "insert_Address_Contract creation_env ?x one_address_store =
      Inr (contract_store {Address, Contract})"
    by code_simp
  have n: "address_nodes one_address_store (sample_address ''cc'') = []"
    by code_simp
  have u: "insert_Address_Unknown ?x (contract_store {Address, Contract}) =
      Inr (contract_store {Address, Contract, EOA})"
    by code_simp
  have e: "insert_Address_EOA ?x (contract_store {Address, Contract, EOA}) =
      Inr (contract_store {Address, Contract, EOA})"
    by code_simp
  from address_ensure_idempotent
         [of ?x one_address_store creation_env "contract_store {Address, Contract}" "''0x6080''"] c code n
  have 1: "insert_Address_Contract creation_env ?x (contract_store {Address, Contract}) =
        Inr (contract_store {Address, Contract}) \<and>
      length (address_nodes (contract_store {Address, Contract}) (sample_address ''cc'')) = 1"
    by (simp add: unhex_Str)
  from address_ensure_idempotent [of ?x "contract_store {Address, Contract}"] u
  have 2: "insert_Address_Unknown ?x (contract_store {Address, Contract, EOA}) =
        Inr (contract_store {Address, Contract, EOA})"
    by auto
  from 1 2 c u e code show ?thesis
    by (simp add: unhex_Str)
qed


end
